theory Spec2Isabelle
  imports Main
begin

section \<open>Errors\<close>

text \<open>
  The error values of the services. \<open>JwtValidationError\<close> is the
  \<open>*jwt.ValidationError\<close> of the JWT library (the only error \<open>jwt.Parse\<close> returns),
  \<open>ErrRecordNotFound\<close> is \<open>gorm.ErrRecordNotFound\<close>, \<open>ErrStorage\<close> is any other
  error of a database call, \<open>ErrorsNew msg\<close> is \<open>errors.New(msg)\<close> and
  \<open>Wrapf p err\<close> is \<open>fmt.Errorf(p + ": %w", err)\<close>.
\<close>

datatype ValidationErrorKind =
    ValidationErrorMalformed
  | ValidationErrorUnverifiable
  | ValidationErrorSignatureInvalid
  | ValidationErrorExpired
  | ValidationErrorIssuedAt
  | ValidationErrorNotValidYet

datatype error =
    JwtValidationError ValidationErrorKind
  | ErrInvalidKeyType
  | ErrRevokedToken
  | ErrUserNotFound
  | ErrRoleNotFound
  | ErrAdminRoleCannotBeModified
  | ErrPermissionNotFound
  | ErrMismatchedHashAndPassword
  | ErrHashPassword
  | ErrRandRead
  | ErrSendEmail
  | ErrRecordNotFound
  | ErrStorage
  | PanicTypeAssertion
  | ErrorsNew string
  | Wrapf string error

text \<open>\<open>errors.Is(err, target)\<close> for a sentinel target: the chain of wrapped errors is searched.\<close>

fun errors_Is :: "error \<Rightarrow> error \<Rightarrow> bool" where
  "errors_Is (Wrapf p err) target = (Wrapf p err = target \<or> errors_Is err target)"
| "errors_Is err target = (err = target)"

text \<open>\<open>errors.As(err, &jwtValidationErr)\<close>: some error of the chain is a \<open>*jwt.ValidationError\<close>.\<close>

fun errors_As_ValidationError :: "error \<Rightarrow> bool" where
  "errors_As_ValidationError (Wrapf p err) = errors_As_ValidationError err"
| "errors_As_ValidationError (JwtValidationError k) = True"
| "errors_As_ValidationError err = False"

section \<open>The JWT library, symbolically\<close>

text \<open>
  The library \<open>github.com/dgrijalva/jwt-go\<close> is not part of the repository. A token
  string is modelled by what it carries: the signing method named in its header, the key
  its signature was computed with, and its claims (JSON numbers decode to \<open>float64\<close>,
  here \<open>JNumber\<close>). Any string that is not three dot-separated base64 parts is
  \<open>NotAToken\<close>.
\<close>

datatype SigningMethod =
    SigningMethodHS256 | SigningMethodHS384 | SigningMethodHS512 | SigningMethodRS256

datatype jval = JString string | JNumber int

type_synonym MapClaims = "(string \<times> jval) list"

datatype tokenString =
    Signed SigningMethod string MapClaims
  | NotAToken string

record Token =
  tok_Method :: SigningMethod
  tok_Claims :: MapClaims
  tok_Valid :: bool

fun isHMAC :: "SigningMethod \<Rightarrow> bool" where
  "isHMAC SigningMethodRS256 = False"
| "isHMAC _ = True"

text \<open>\<open>claims[k]\<close>: the value stored under a key, \<open>None\<close> for Go's \<open>nil\<close>.\<close>

definition claim :: "MapClaims \<Rightarrow> string \<Rightarrow> jval option" where
  "claim c k = map_of c k"

text \<open>
  \<open>MapClaims.Valid\<close>: an \<open>exp\<close>, \<open>iat\<close> or \<open>nbf\<close> claim is checked only when it is
  present as a number other than 0.
\<close>

definition verifyExp :: "MapClaims \<Rightarrow> int \<Rightarrow> bool" where
  "verifyExp c t =
     (case claim c ''exp'' of
        Some (JNumber ex) \<Rightarrow> (if ex = 0 then True else t \<le> ex)
      | _ \<Rightarrow> True)"

definition verifyIat :: "MapClaims \<Rightarrow> int \<Rightarrow> bool" where
  "verifyIat c t =
     (case claim c ''iat'' of
        Some (JNumber iat) \<Rightarrow> (if iat = 0 then True else iat \<le> t)
      | _ \<Rightarrow> True)"

definition verifyNbf :: "MapClaims \<Rightarrow> int \<Rightarrow> bool" where
  "verifyNbf c t =
     (case claim c ''nbf'' of
        Some (JNumber nbf) \<Rightarrow> (if nbf = 0 then True else nbf \<le> t)
      | _ \<Rightarrow> True)"

text \<open>
  \<open>jwt.Parse(tokenString, keyFunc)\<close> at time \<open>t\<close>: the key function may refuse the
  token (\<open>None\<close>), the claims are validated, the signature is verified with the key the
  key function returned.
\<close>

definition jwt_Parse ::
  "int \<Rightarrow> (SigningMethod \<Rightarrow> string option) \<Rightarrow> tokenString \<Rightarrow> ValidationErrorKind + Token" where
  "jwt_Parse t keyFunc s =
     (case s of
        NotAToken _ \<Rightarrow> Inl ValidationErrorMalformed
      | Signed m k c \<Rightarrow>
          (case keyFunc m of
             None \<Rightarrow> Inl ValidationErrorUnverifiable
           | Some key \<Rightarrow>
               if \<not> verifyExp c t then Inl ValidationErrorExpired
               else if \<not> verifyIat c t then Inl ValidationErrorIssuedAt
               else if \<not> verifyNbf c t then Inl ValidationErrorNotValidYet
               else if k \<noteq> key then Inl ValidationErrorSignatureInvalid
               else Inr \<lparr>tok_Method = m, tok_Claims = c, tok_Valid = True\<rparr>))"

text \<open>\<open>tok.SignedString(key)\<close>: an HMAC method signs with any byte-string key.\<close>

definition SignedString :: "SigningMethod \<Rightarrow> string \<Rightarrow> MapClaims \<Rightarrow> error + tokenString" where
  "SignedString m key c = (if isHMAC m then Inr (Signed m key c) else Inl ErrInvalidKeyType)"

section \<open>Environment\<close>

text \<open>
  What the process reads from outside: the clock (\<open>time.Now().Unix()\<close>), the
  environment variable \<open>JWT_SECRET_KEY\<close>, and the bcrypt library
  (\<open>bcrypt.CompareHashAndPassword\<close> returns no error iff \<open>bcrypt_Compare hash pw\<close>;
  \<open>bcrypt.GenerateFromPassword\<close> returns a hash or fails).
\<close>

record env =
  now :: int
  JWT_SECRET_KEY :: string
  bcrypt_Compare :: "string \<Rightarrow> string \<Rightarrow> bool"
  bcrypt_Generate :: "string \<Rightarrow> string option"

section \<open>util: tokens\<close>

definition ParseToken :: "env \<Rightarrow> tokenString \<Rightarrow> error + MapClaims" where
  "ParseToken e s =
     (case jwt_Parse (now e)
             (\<lambda>m. if \<not> isHMAC m then None else Some (JWT_SECRET_KEY e)) s of
        Inl k \<Rightarrow> Inl (Wrapf ''util.ParseToken'' (JwtValidationError k))
      | Inr token \<Rightarrow>
          if tok_Valid token then Inr (tok_Claims token)
          else Inl (ErrorsNew ''util.ParseToken: token is invalid''))"

definition CreateJwtToken ::
  "nat \<Rightarrow> int \<Rightarrow> SigningMethod \<Rightarrow> string \<Rightarrow> string \<Rightarrow> error + tokenString" where
  "CreateJwtToken usrID ex signingMethod key tokenType =
     (let claims = [(''id'', JNumber (int usrID)), (''type'', JString tokenType)];
          claims = (if ex \<noteq> 0 then claims @ [(''exp'', JNumber ex)] else claims)
      in case SignedString signingMethod key claims of
           Inl err \<Rightarrow> Inl (Wrapf ''util.CreateJwtToken'' err)
         | Inr tokStr \<Rightarrow> Inr tokStr)"

definition CreateAccessToken :: "env \<Rightarrow> nat \<Rightarrow> int \<Rightarrow> error + tokenString" where
  "CreateAccessToken e userID expiredAt =
     CreateJwtToken userID expiredAt SigningMethodHS256 (JWT_SECRET_KEY e) ''access''"

definition CreateRefreshToken :: "env \<Rightarrow> nat \<Rightarrow> int \<Rightarrow> error + tokenString" where
  "CreateRefreshToken e userID expiredAt =
     CreateJwtToken userID expiredAt SigningMethodHS256 (JWT_SECRET_KEY e) ''refresh''"

section \<open>The relational store\<close>

text \<open>
  Each table is the list of its rows in primary-key order. A model with a
  \<open>gorm.DeletedAt\<close> column is soft-deleted: \<open>Delete\<close> sets the column and every query
  made through the model skips the rows where it is set.
\<close>

record User =
  usr_ID :: nat
  usr_OrganizationID :: nat
  usr_Name :: string
  usr_Email :: string
  usr_Password :: string
  usr_CurrentTeamID :: nat
  usr_LineID :: string
  usr_RoleID :: "string option"
  usr_DeletedAt :: "int option"

record Role =
  role_ID :: string
  role_CreatedAt :: int
  role_DeletedAt :: "int option"
  role_Name :: string
  role_Description :: string
  role_TeamID :: nat

record RolePermission =
  rp_RoleID :: string
  rp_PermissionID :: string

record Permission =
  perm_ID :: string
  perm_Name :: string

record RefreshToken =
  rt_Token :: tokenString
  rt_Revoked :: bool

datatype ActivityType = ActTypeLogin | ActTypeLogout | ActTypePwdChangeReq

record ActivityLog =
  al_UserID :: nat
  al_ActivityType :: ActivityType

record PasswordReset =
  pr_Email :: string
  pr_Token :: string
  pr_CreatedAt :: int
  pr_DeletedAt :: "int option"

record DB =
  users :: "User list"
  roles :: "Role list"
  role_permissions :: "RolePermission list"
  permissions :: "Permission list"
  refresh_tokens :: "RefreshToken list"
  activity_logs :: "ActivityLog list"
  password_resets :: "PasswordReset list"

text \<open>
  A database call can fail for reasons outside the program. Each service function takes
  a fault plan: \<open>flt i\<close> says that the \<open>i\<close>-th database call of the function (in source
  order, from 0) fails with a storage error.
\<close>

type_synonym faults = "nat \<Rightarrow> bool"

definition no_faults :: faults where
  "no_faults = (\<lambda>_. False)"

text \<open>\<open>First(&row, cond)\<close>: the first row that satisfies the condition.\<close>

definition db_First :: "bool \<Rightarrow> ('a \<Rightarrow> bool) \<Rightarrow> 'a list \<Rightarrow> error + 'a" where
  "db_First fails cond rows =
     (if fails then Inl ErrStorage
      else case filter cond rows of [] \<Rightarrow> Inl ErrRecordNotFound | r # _ \<Rightarrow> Inr r)"

text \<open>\<open>Count(&count)\<close>: the number of rows that satisfy the condition.\<close>

definition db_Count :: "bool \<Rightarrow> ('a \<Rightarrow> bool) \<Rightarrow> 'a list \<Rightarrow> error + nat" where
  "db_Count fails cond rows =
     (if fails then Inl ErrStorage else Inr (length (filter cond rows)))"

section \<open>service.UserService\<close>

text \<open>
  \<open>First(&user, "users.id = ?", claims["id"])\<close>: a numeric claim selects the user with
  that id; a missing or non-numeric claim selects none.
\<close>

definition id_matches :: "jval option \<Rightarrow> User \<Rightarrow> bool" where
  "id_matches v u = (case v of Some (JNumber n) \<Rightarrow> int (usr_ID u) = n | _ \<Rightarrow> False)"

definition GetByToken :: "env \<Rightarrow> faults \<Rightarrow> DB \<Rightarrow> tokenString \<Rightarrow> error + User" where
  "GetByToken e flt db tokStr =
     (case ParseToken e tokStr of
        Inl err \<Rightarrow> Inl (Wrapf ''service.UserService.GetByToken'' err)
      | Inr claims \<Rightarrow>
          let t = claim claims ''type'' in
          if t \<noteq> Some (JString ''access'') \<and> t \<noteq> Some (JString ''refresh'')
          then Inl (ErrorsNew ''service.UserService.GetByToken: invalid token type'')
          else
            (case db_First (flt 0)
                    (\<lambda>u. usr_DeletedAt u = None \<and> id_matches (claim claims ''id'') u)
                    (users db) of
               Inl err \<Rightarrow>
                 if errors_Is err ErrRecordNotFound
                 then Inl (Wrapf ''service.UserService.GetByToken'' ErrUserNotFound)
                 else Inl (Wrapf ''service.UserService.GetByToken'' err)
             | Inr user \<Rightarrow> Inr user))"

section \<open>middleware.AuthRequired\<close>

text \<open>
  The outcome of the middleware: the request is aborted with a status and a message, or
  it goes on with the user set in the request context. \<open>decode\<close> is the reading of the
  header's bytes after the seventh as a token string; \<open>teamFindByID\<close> is
  \<open>TeamService.FindByID\<close>, a service outside the source at hand.
\<close>

datatype AuthOutcome = AbortWithStatusJSON nat string | SetUser User

definition AuthRequired ::
  "env \<Rightarrow> faults \<Rightarrow> (string \<Rightarrow> tokenString) \<Rightarrow> (nat \<Rightarrow> error option) \<Rightarrow> DB \<Rightarrow> string
     \<Rightarrow> AuthOutcome" where
  "AuthRequired e flt decode teamFindByID db authHeader =
     (if length authHeader \<le> length ''Bearer ''
      then AbortWithStatusJSON 401 ''Authentication failed''
      else
        let tokenString = decode (drop 7 authHeader) in
        case GetByToken e flt db tokenString of
          Inl err \<Rightarrow>
            if errors_As_ValidationError err
            then AbortWithStatusJSON 401 ''Authentication failed''
            else if errors_Is err ErrUserNotFound
            then AbortWithStatusJSON 401 ''Authentication failed''
            else AbortWithStatusJSON 500 ''Authentication failed''
        | Inr user \<Rightarrow>
            (case teamFindByID (usr_OrganizationID user) of
               Some _ \<Rightarrow> AbortWithStatusJSON 500 ''Find user failed''
             | None \<Rightarrow> SetUser user))"

section \<open>service.AuthService\<close>

text \<open>
  \<open>strings.ToLower\<close> on the ASCII letters (a \<open>char\<close> is a byte).
\<close>

definition toLowerChar :: "char \<Rightarrow> char" where
  "toLowerChar c =
     (let n = (of_char c :: nat) in if 65 \<le> n \<and> n \<le> 90 then char_of (n + 32) else c)"

definition ToLower :: "string \<Rightarrow> string" where
  "ToLower s = map toLowerChar s"

record LoginParams =
  lp_Email :: string
  lp_Password :: string
  lp_IsLongLiveToken :: bool

record TokenSet =
  ts_AccessToken :: tokenString
  ts_RefreshToken :: tokenString

text \<open>
  The role that \<open>LogIn\<close> gives a user without one. \<open>model.AllPermissions\<close> and the id
  the store gives the new role are not in the source at hand: both are parameters.
  \<open>tx.Save(&user)\<close> writes the role, its permission links and the user's reference.
\<close>

definition save_user_with_admin_role :: "Permission list \<Rightarrow> string \<Rightarrow> User \<Rightarrow> int \<Rightarrow> DB \<Rightarrow> DB" where
  "save_user_with_admin_role AllPermissions newRoleID user t db =
     db\<lparr>roles := roles db @
            [\<lparr>role_ID = newRoleID, role_CreatedAt = t, role_DeletedAt = None,
              role_Name = ''Admin'', role_Description = ''Administrator'',
              role_TeamID = usr_OrganizationID user\<rparr>],
        role_permissions := role_permissions db @
            map (\<lambda>p. \<lparr>rp_RoleID = newRoleID, rp_PermissionID = perm_ID p\<rparr>) AllPermissions,
        users := map (\<lambda>u. if usr_ID u = usr_ID user then u\<lparr>usr_RoleID := Some newRoleID\<rparr> else u)
                   (users db)\<rparr>"

text \<open>
  \<open>LogIn\<close> returns its result and the committed store. Database calls: 0 the user
  lookup, 1 the refresh-token insert, 2 the save of a user without a role, 3 the
  activity-log insert, 4 the commit. The writes go to the transaction \<open>tx\<close>; every
  failure path calls \<open>tx.Rollback()\<close>, which leaves the store as it was.
\<close>

definition LogIn ::
  "env \<Rightarrow> Permission list \<Rightarrow> string \<Rightarrow> faults \<Rightarrow> DB \<Rightarrow> LoginParams
     \<Rightarrow> (error + TokenSet) \<times> DB" where
  "LogIn e AllPermissions newRoleID flt db cred =
     (case db_First (flt 0)
             (\<lambda>u. usr_DeletedAt u = None \<and> usr_Email u = ToLower (lp_Email cred)) (users db) of
        Inl err \<Rightarrow> (Inl (Wrapf ''service.AuthService.LogIn'' err), db)
      | Inr user \<Rightarrow>
          if \<not> bcrypt_Compare e (usr_Password user) (lp_Password cred)
          then (Inl (Wrapf ''service.AuthService.LogIn'' ErrMismatchedHashAndPassword), db)
          else
            let accessTokenLifespan = now e + 3600 * 24 * 30;
                accessTokenExpiredAt =
                  (if lp_IsLongLiveToken cred then 0 else accessTokenLifespan)
            in
            (case CreateAccessToken e (usr_ID user) accessTokenExpiredAt of
               Inl err \<Rightarrow> (Inl (Wrapf ''service.AuthService.LogIn'' err), db)
             | Inr accessTokenStr \<Rightarrow>
                 let refreshTokenLifespan = now e + 3600 * 24 * 30 in
                 (case CreateRefreshToken e (usr_ID user) refreshTokenLifespan of
                    Inl err \<Rightarrow> (Inl (Wrapf ''service.AuthService.LogIn'' err), db)
                  | Inr refreshTokenStr \<Rightarrow>
                      if flt 1 then (Inl (Wrapf ''service.AuthService.LogIn'' ErrStorage), db)
                      else
                        let tx = db\<lparr>refresh_tokens := refresh_tokens db @
                                   [\<lparr>rt_Token = refreshTokenStr, rt_Revoked = False\<rparr>]\<rparr>
                        in
                        if usr_RoleID user = None \<and> flt 2 then (Inl (Wrapf ''service.AuthService.LogIn'' ErrStorage), db)
                        else
                          let tx = (if usr_RoleID user = None
                                    then save_user_with_admin_role AllPermissions newRoleID
                                           user (now e) tx
                                    else tx)
                          in
                          if flt 3 then (Inl (Wrapf ''service.AuthService.LogIn'' ErrStorage), db)
                          else
                            let tx = tx\<lparr>activity_logs := activity_logs tx @
                                       [\<lparr>al_UserID = usr_ID user,
                                         al_ActivityType = ActTypeLogin\<rparr>]\<rparr>
                            in
                            if flt 4 then (Inl (Wrapf ''service.AuthService.LogIn'' ErrStorage), db)
                            else (Inr \<lparr>ts_AccessToken = accessTokenStr,
                                       ts_RefreshToken = refreshTokenStr\<rparr>, tx))))"

text \<open>
  \<open>uint(claims["id"].(float64))\<close>: the type assertion panics unless the claim is a
  number. Go leaves the conversion of a negative number to \<open>uint\<close> to the
  implementation; \<open>CreateJwtToken\<close> only ever writes a \<open>uint\<close> there.
\<close>

definition AuthService_RefreshToken ::
  "env \<Rightarrow> bool \<Rightarrow> DB \<Rightarrow> tokenString \<Rightarrow> (error + tokenString) \<times> DB" where
  "AuthService_RefreshToken e fails db refreshToken =
     (case db_First fails (\<lambda>rt. rt_Token rt = refreshToken) (refresh_tokens db) of
        Inl err \<Rightarrow> (Inl (Wrapf ''service.AuthService.RefreshToken'' err), db)
      | Inr rt \<Rightarrow>
          if rt_Revoked rt then (Inl (Wrapf ''service.AuthService.RefreshToken'' ErrRevokedToken), db)
          else
            (case ParseToken e refreshToken of
               Inl err \<Rightarrow> (Inl (Wrapf ''service.AuthService.RefreshToken'' err), db)
             | Inr claims \<Rightarrow>
                 if claim claims ''type'' \<noteq> Some (JString ''refresh'')
                 then (Inl (Wrapf ''service.AuthService.RefreshToken'' (ErrorsNew ''wrong token type'')), db)
                 else
                   let accessTokenLifespan = now e + 3600 * 24 * 30 in
                   (case claim claims ''id'' of
                      Some (JNumber n) \<Rightarrow>
                        (case CreateAccessToken e (nat n) accessTokenLifespan of
                           Inl err \<Rightarrow> (Inl (Wrapf ''service.AuthService.RefreshToken'' err), db)
                         | Inr accessTokenStr \<Rightarrow> (Inr accessTokenStr, db))
                    | _ \<Rightarrow> (Inl PanicTypeAssertion, db))))"

text \<open>
  \<open>LogOut\<close>: \<open>tx := s.mySQL.WithContext(ctx)\<close> is the plain handle, no transaction is
  begun, so each write is committed when it is made and \<open>tx.Rollback()\<close> undoes
  nothing. \<open>Update("revoked", true)\<close> with a \<open>Where\<close> that matches no row is not an
  error. Database calls: 0 the update, 1 the user lookup of \<open>GetByToken\<close>, 2 the
  activity-log insert.
\<close>

definition LogOut :: "env \<Rightarrow> faults \<Rightarrow> DB \<Rightarrow> tokenString \<Rightarrow> error option \<times> DB" where
  "LogOut e flt db refreshToken =
     (if flt 0 then (Some (Wrapf ''service.AuthService.LogOut'' ErrStorage), db)
      else
        let db1 = db\<lparr>refresh_tokens :=
                    map (\<lambda>rt. if rt_Token rt = refreshToken then rt\<lparr>rt_Revoked := True\<rparr> else rt)
                      (refresh_tokens db)\<rparr>
        in
        (case GetByToken e (\<lambda>i. flt (Suc i)) db1 refreshToken of
           Inl err \<Rightarrow> (Some (Wrapf ''service.AuthService.LogOut'' err), db1)
         | Inr usr \<Rightarrow>
             if flt 2 then (Some (Wrapf ''service.AuthService.LogOut'' ErrStorage), db1)
             else (None, db1\<lparr>activity_logs := activity_logs db1 @
                     [\<lparr>al_UserID = usr_ID usr, al_ActivityType = ActTypeLogout\<rparr>]\<rparr>)))"

text \<open>
  \<open>LogInByLine\<close>. Database calls: 0 the user lookup, 1 the refresh-token insert, 2 the
  activity-log insert, 3 the commit.
\<close>

definition LogInByLine :: "env \<Rightarrow> faults \<Rightarrow> DB \<Rightarrow> string \<Rightarrow> (error + TokenSet) \<times> DB" where
  "LogInByLine e flt db lineID =
     (case db_First (flt 0) (\<lambda>u. usr_DeletedAt u = None \<and> usr_LineID u = lineID) (users db) of
        Inl err \<Rightarrow> (Inl (Wrapf ''service.AuthService.LogInByLine'' err), db)
      | Inr usr \<Rightarrow>
          let accessTokenLifespan = now e + 3600 * 24 * 30 in
          (case CreateAccessToken e (usr_ID usr) accessTokenLifespan of
             Inl err \<Rightarrow> (Inl (Wrapf ''service.AuthService.LogInByLine'' err), db)
           | Inr accTok \<Rightarrow>
               let refreshTokenLifespan = now e + 3600 * 24 * 7 in
               (case CreateRefreshToken e (usr_ID usr) refreshTokenLifespan of
                  Inl err \<Rightarrow> (Inl (Wrapf ''service.AuthService.LogInByLine'' err), db)
                | Inr refreshTok \<Rightarrow>
                    if flt 1 then (Inl (Wrapf ''service.AuthService.LogInByLine'' ErrStorage), db)
                    else
                      let tx = db\<lparr>refresh_tokens := refresh_tokens db @
                                 [\<lparr>rt_Token = refreshTok, rt_Revoked = False\<rparr>]\<rparr>
                      in
                      if flt 2 then (Inl (Wrapf ''service.AuthService.LogInByLine'' ErrStorage), db)
                      else
                        let tx = tx\<lparr>activity_logs := activity_logs tx @
                                   [\<lparr>al_UserID = usr_ID usr, al_ActivityType = ActTypeLogin\<rparr>]\<rparr>
                        in
                        if flt 3 then (Inl (Wrapf ''service.AuthService.LogInByLine'' ErrStorage), db)
                        else (Inr \<lparr>ts_AccessToken = accTok, ts_RefreshToken = refreshTok\<rparr>,
                              tx))))"

section \<open>service.UserService: lookup, update, permission check\<close>

definition GetByEmail :: "bool \<Rightarrow> DB \<Rightarrow> string \<Rightarrow> error + User" where
  "GetByEmail fails db email =
     (case db_First fails (\<lambda>u. usr_DeletedAt u = None \<and> usr_Email u = email) (users db) of
        Inl err \<Rightarrow> Inl (Wrapf ''service.UserService.GetByEmail'' err)
      | Inr user \<Rightarrow> Inr user)"

definition FindByID :: "bool \<Rightarrow> DB \<Rightarrow> nat \<Rightarrow> error + User" where
  "FindByID fails db userID =
     (case db_First fails (\<lambda>u. usr_DeletedAt u = None \<and> usr_ID u = userID) (users db) of
        Inl err \<Rightarrow>
          if errors_Is err ErrRecordNotFound
          then Inl (Wrapf ''service.UserService.FindAllByTeamID'' ErrUserNotFound)
          else Inl (Wrapf ''service.UserService.FindAllByTeamID'' err)
      | Inr user \<Rightarrow> Inr user)"

text \<open>
  \<open>Updates(updateFields)\<close> on the row of one user: the columns named in the map are
  set (of the columns the model has here), every other key changes nothing.
\<close>

fun apply_updateFields :: "(string \<times> string) list \<Rightarrow> User \<Rightarrow> User" where
  "apply_updateFields [] u = u"
| "apply_updateFields ((k, v) # fs) u =
     apply_updateFields fs
       (if k = ''password'' then u\<lparr>usr_Password := v\<rparr>
        else if k = ''name'' then u\<lparr>usr_Name := v\<rparr>
        else if k = ''email'' then u\<lparr>usr_Email := v\<rparr>
        else if k = ''line_id'' then u\<lparr>usr_LineID := v\<rparr>
        else u)"

text \<open>
  \<open>UserService.Update\<close>. Database calls: 0 the update (in a transaction), 1 the
  commit, 2 the lookup of the updated user.
\<close>

definition UserService_Update ::
  "faults \<Rightarrow> DB \<Rightarrow> nat \<Rightarrow> (string \<times> string) list \<Rightarrow> (error + User) \<times> DB" where
  "UserService_Update flt db usrID updateFields =
     (let updateFields = filter (\<lambda>(k, v). k \<noteq> ''id'') updateFields in
      if flt 0 then (Inl (Wrapf ''service.UserService.Update'' ErrStorage), db)
      else
        let tx = db\<lparr>users :=
                   map (\<lambda>u. if usr_DeletedAt u = None \<and> usr_ID u = usrID
                             then apply_updateFields updateFields u else u) (users db)\<rparr>
        in
        if flt 1 then (Inl (Wrapf ''service.UserService.Update'' ErrStorage), db)
        else
          (case FindByID (flt 2) tx usrID of
             Inl err \<Rightarrow> (Inl (Wrapf ''service.UserService.Update'' err), tx)
           | Inr usr \<Rightarrow> (Inr usr, tx)))"

text \<open>
  \<open>HasPermission\<close>: the rows of roles joined with users on \<open>users.role_id = roles.id\<close>,
  with role\_permissions on \<open>rp.role_id = roles.id\<close> and with permissions on
  \<open>p.id = rp.permission_id\<close>, where \<open>users.id = userID\<close> and \<open>p.name = perm.Name\<close>.
  The query is made through the Role model, so soft-deleted roles are skipped; the other
  tables are joined as they are.
\<close>

definition permission_join_rows ::
  "DB \<Rightarrow> nat \<Rightarrow> string \<Rightarrow> (Role \<times> User \<times> RolePermission \<times> Permission) list" where
  "permission_join_rows db userID permName =
     [(r, u, rp, p).
        r \<leftarrow> roles db, role_DeletedAt r = None,
        u \<leftarrow> users db, usr_RoleID u = Some (role_ID r),
        rp \<leftarrow> role_permissions db, rp_RoleID rp = role_ID r,
        p \<leftarrow> permissions db, perm_ID p = rp_PermissionID rp,
        usr_ID u = userID \<and> perm_Name p = permName]"

definition HasPermission :: "bool \<Rightarrow> DB \<Rightarrow> nat \<Rightarrow> Permission \<Rightarrow> error + bool" where
  "HasPermission fails db userID perm =
     (if fails then Inl (Wrapf ''service.RoleService.HasPermission'' ErrStorage)
      else
        let count = length (permission_join_rows db userID (perm_Name perm))
        in Inr (count = 1))"

section \<open>service.PasswordService\<close>

definition passwordResetRecordExpiryTime :: int where
  "passwordResetRecordExpiryTime = 1 * 3600"

text \<open>
  The zero value \<open>model.PasswordReset{}\<close>: empty strings, and the zero \<open>time.Time\<close>,
  whose \<open>Unix()\<close> is the first second of year 1.
\<close>

definition zero_PasswordReset :: PasswordReset where
  "zero_PasswordReset =
     \<lparr>pr_Email = [], pr_Token = [], pr_CreatedAt = - 62135596800, pr_DeletedAt = None\<rparr>"

text \<open>
  \<open>CreatePasswordReset\<close>. The \<open>AfterCreate\<close> hook of the model logs a
  password-change request when the context carries a user; the password routes run
  without the authentication middleware, so there the context carries none.
\<close>

definition CreatePasswordReset ::
  "env \<Rightarrow> bool \<Rightarrow> DB \<Rightarrow> string \<Rightarrow> string \<Rightarrow> (error + PasswordReset) \<times> DB" where
  "CreatePasswordReset e fails db email token =
     (let pr = \<lparr>pr_Email = email, pr_Token = token, pr_CreatedAt = now e,
                 pr_DeletedAt = None\<rparr>
      in if fails
         then (Inl (Wrapf ''service.PasswordService.CreatePasswordReset'' ErrStorage), db)
         else (Inr pr, db\<lparr>password_resets := password_resets db @ [pr]\<rparr>))"

definition GetPasswordReset :: "bool \<Rightarrow> DB \<Rightarrow> string \<Rightarrow> error + PasswordReset" where
  "GetPasswordReset fails db email =
     (case db_First fails (\<lambda>r. pr_DeletedAt r = None \<and> pr_Email r = email)
             (password_resets db) of
        Inl err \<Rightarrow>
          if errors_Is err ErrRecordNotFound then Inr zero_PasswordReset
          else Inl (Wrapf ''service.PasswordService.GetPasswordReset'' err)
      | Inr pr \<Rightarrow> Inr pr)"

definition checkPasswordResetExist :: "bool \<Rightarrow> DB \<Rightarrow> string \<Rightarrow> string \<Rightarrow> error + bool" where
  "checkPasswordResetExist fails db email token =
     (case db_Count fails
             (\<lambda>r. pr_DeletedAt r = None \<and> pr_Email r = email \<and> pr_Token r = token)
             (password_resets db) of
        Inl err \<Rightarrow> Inl (Wrapf ''service.PasswordService.checkPasswordResetExist'' err)
      | Inr count \<Rightarrow> Inr (count \<ge> 1))"

text \<open>
  \<open>CheckPasswordResetExpire\<close>: every error of the lookup is returned first, the
  record-not-found error among them; the test for that error comes after.
\<close>

definition CheckPasswordResetExpire ::
  "env \<Rightarrow> bool \<Rightarrow> DB \<Rightarrow> string \<Rightarrow> string \<Rightarrow> error + bool" where
  "CheckPasswordResetExpire e fails db email token =
     (let res = db_First fails
                  (\<lambda>r. pr_DeletedAt r = None \<and> pr_Email r = email \<and> pr_Token r = token)
                  (password_resets db)
      in case res of
           Inl err \<Rightarrow> Inl (Wrapf ''service.PasswordService.CheckPasswordResetExpire'' err)
         | Inr pr \<Rightarrow>
             if res = Inl ErrRecordNotFound then Inr True
             else
               let expired = now e - pr_CreatedAt pr > passwordResetRecordExpiryTime
               in Inr expired)"

text \<open>\<open>ValidateEmailAndToken\<close>. Database calls: 0 the count, 1 the lookup.\<close>

definition ValidateEmailAndToken ::
  "env \<Rightarrow> faults \<Rightarrow> DB \<Rightarrow> string \<Rightarrow> string \<Rightarrow> error + bool" where
  "ValidateEmailAndToken e flt db email token =
     (case checkPasswordResetExist (flt 0) db email token of
        Inl err \<Rightarrow> Inl (Wrapf ''service.PasswordService.ValidateEmailAndToken'' err)
      | Inr exist \<Rightarrow>
          (case CheckPasswordResetExpire e (flt 1) db email token of
             Inl err \<Rightarrow> Inl (Wrapf ''service.PasswordService.ValidateEmailAndToken'' err)
           | Inr expired \<Rightarrow> Inr (exist \<and> \<not> expired)))"

definition DeletePasswordResetRecord ::
  "env \<Rightarrow> bool \<Rightarrow> DB \<Rightarrow> string \<Rightarrow> string \<Rightarrow> error option \<times> DB" where
  "DeletePasswordResetRecord e fails db email token =
     (if fails
      then (Some (Wrapf ''service.PasswordService.DeletePasswordResetRecord'' ErrStorage), db)
      else (None,
            db\<lparr>password_resets :=
                 map (\<lambda>r. if pr_DeletedAt r = None \<and> pr_Email r = email \<and> pr_Token r = token
                           then r\<lparr>pr_DeletedAt := Some (now e)\<rparr> else r)
                   (password_resets db)\<rparr>))"

text \<open>
  \<open>CheckPasswordResetEmailExpire\<close>. Database calls: 0 the lookup, 1 the delete of an
  expired record. An error of the lookup other than record-not-found is not looked at:
  the record is then the zero value.
\<close>

definition CheckPasswordResetEmailExpire :: "env \<Rightarrow> faults \<Rightarrow> DB \<Rightarrow> string \<Rightarrow> bool \<times> DB" where
  "CheckPasswordResetEmailExpire e flt db email =
     (let res = db_First (flt 0) (\<lambda>r. pr_DeletedAt r = None \<and> pr_Email r = email)
                  (password_resets db)
      in if (case res of Inl err \<Rightarrow> errors_Is err ErrRecordNotFound | Inr _ \<Rightarrow> False)
         then (True, db)
         else
           let pr = (case res of Inl _ \<Rightarrow> zero_PasswordReset | Inr r \<Rightarrow> r);
               expired = now e - pr_CreatedAt pr > passwordResetRecordExpiryTime
           in if expired
              then (expired, snd (DeletePasswordResetRecord e (flt 1) db email (pr_Token pr)))
              else (expired, db))"

text \<open>The two counts ignore the error of the query: the count is then still 0.\<close>

definition CheckPasswordResetEmailExist :: "bool \<Rightarrow> DB \<Rightarrow> string \<Rightarrow> bool" where
  "CheckPasswordResetEmailExist fails db email =
     (let count = (case db_Count fails (\<lambda>r. pr_DeletedAt r = None \<and> pr_Email r = email)
                          (password_resets db) of
                     Inl _ \<Rightarrow> 0 | Inr n \<Rightarrow> n)
      in count \<ge> 1)"

definition EmailExist :: "bool \<Rightarrow> DB \<Rightarrow> string \<Rightarrow> bool" where
  "EmailExist fails db email =
     (let count = (case db_Count fails (\<lambda>u. usr_DeletedAt u = None \<and> usr_Email u = email)
                          (users db) of
                     Inl _ \<Rightarrow> 0 | Inr n \<Rightarrow> n)
      in count \<ge> 1)"

record ResetPasswordParams =
  rpp_Email :: string
  rpp_Password :: string
  rpp_Token :: string

definition HashPassword :: "env \<Rightarrow> string \<Rightarrow> error + string" where
  "HashPassword e password =
     (case bcrypt_Generate e password of
        None \<Rightarrow> Inl (Wrapf ''util.HashPassword'' ErrHashPassword)
      | Some hashedPassword \<Rightarrow> Inr hashedPassword)"

text \<open>
  \<open>PasswordService.ResetPassword\<close>. Database calls: 0 the lookup by email, 1 to 3 the
  calls of \<open>UserService.Update\<close>.
\<close>

definition PasswordService_ResetPassword ::
  "env \<Rightarrow> faults \<Rightarrow> DB \<Rightarrow> ResetPasswordParams \<Rightarrow> error option \<times> DB" where
  "PasswordService_ResetPassword e flt db rp =
     (case HashPassword e (rpp_Password rp) of
        Inl err \<Rightarrow> (Some (Wrapf ''PasswordService.ResetPassword'' err), db)
      | Inr newHashedPassword \<Rightarrow>
          (case GetByEmail (flt 0) db (rpp_Email rp) of
             Inl err \<Rightarrow> (Some (Wrapf ''service.PasswordService.ResetPassword'' err), db)
           | Inr usr \<Rightarrow>
               (case UserService_Update (\<lambda>i. flt (Suc i)) db (usr_ID usr)
                       [(''password'', newHashedPassword)] of
                  (Inl err, db') \<Rightarrow>
                    (Some (Wrapf ''service.PasswordService.ResetPassword'' err), db')
                | (Inr _, db') \<Rightarrow> (None, db'))))"

section \<open>handler.Password\<close>

text \<open>
  A response is the HTTP status and the JSON body. \<open>ErrorResponseErr err\<close> is
  \<open>model.ErrorResponse{Message: err.Error()}\<close>.
\<close>

datatype Body =
    ErrorResponse string
  | ErrorResponseErr error
  | SuccessResponse string

type_synonym Response = "nat \<times> Body"

text \<open>
  What a password handler can change: the store, and the password-reset emails handed to
  the email service (\<open>service.Email\<close>, outside the source at hand; \<open>send_fails\<close> says
  that \<open>SendPasswordResetEmail\<close> returns an error).
\<close>

record World =
  w_db :: DB
  w_sent :: "PasswordReset list"

text \<open>
  \<open>util.GenerateRandomString\<close>: \<open>rand\<close> is what \<open>crypto/rand\<close> yields, already in
  its URL-safe base64 form, or \<open>None\<close> when reading fails.
\<close>

definition GenerateRandomString :: "string option \<Rightarrow> error + string" where
  "GenerateRandomString rand =
     (case rand of
        None \<Rightarrow> Inl (Wrapf ''util.GenerateRandomString'' ErrRandRead)
      | Some b \<Rightarrow> Inr b)"

definition createPasswordReset ::
  "env \<Rightarrow> bool \<Rightarrow> string option \<Rightarrow> DB \<Rightarrow> string \<Rightarrow> (error + PasswordReset) \<times> DB" where
  "createPasswordReset e fails rand db email =
     (case GenerateRandomString rand of
        Inl err \<Rightarrow> (Inl (Wrapf ''handler.PasswordService.createPasswordReset'' err), db)
      | Inr token \<Rightarrow>
          (case CreatePasswordReset e fails db email token of
             (Inl err, db') \<Rightarrow>
               (Inl (Wrapf ''handler.PasswordService.createPasswordReset'' err), db')
           | (Inr pr, db') \<Rightarrow> (Inr pr, db')))"

text \<open>
  Database calls of the handler \<open>CreatePasswordReset\<close> and of
  \<open>createNewPasswordReset\<close>, under one fault plan: 0 \<open>EmailExist\<close>,
  1 \<open>CheckPasswordResetEmailExist\<close>, 2 and 3 \<open>CheckPasswordResetEmailExpire\<close>,
  4 \<open>GetPasswordReset\<close> of the reuse path, 5 \<open>GetPasswordReset\<close>, 6 the delete and
  7 the insert of \<open>createNewPasswordReset\<close>.
\<close>

definition createNewPasswordReset ::
  "env \<Rightarrow> faults \<Rightarrow> string option \<Rightarrow> bool \<Rightarrow> World \<Rightarrow> string \<Rightarrow> Response \<times> World" where
  "createNewPasswordReset e flt rand send_fails w email =
     (case GetPasswordReset (flt 5) (w_db w) email of
        Inl err \<Rightarrow> ((500, ErrorResponseErr err), w)
      | Inr prOld \<Rightarrow>
          (case (if pr_Email prOld \<noteq> []
                 then DeletePasswordResetRecord e (flt 6) (w_db w) (pr_Email prOld)
                        (pr_Token prOld)
                 else (None, w_db w)) of
             (Some err, db1) \<Rightarrow> ((500, ErrorResponseErr err), w\<lparr>w_db := db1\<rparr>)
           | (None, db1) \<Rightarrow>
               (case createPasswordReset e (flt 7) rand db1 email of
                  (Inl err, db2) \<Rightarrow> ((500, ErrorResponseErr err), w\<lparr>w_db := db2\<rparr>)
                | (Inr prNew, db2) \<Rightarrow>
                    if send_fails
                    then ((500, ErrorResponseErr ErrSendEmail), w\<lparr>w_db := db2\<rparr>)
                    else ((201, SuccessResponse ''success''),
                          \<lparr>w_db = db2, w_sent = w_sent w @ [prNew]\<rparr>))))"

definition Password_CreatePasswordReset ::
  "env \<Rightarrow> faults \<Rightarrow> string option \<Rightarrow> bool \<Rightarrow> World \<Rightarrow> string \<Rightarrow> Response \<times> World" where
  "Password_CreatePasswordReset e flt rand send_fails w email =
     (if email = [] then ((400, ErrorResponse ''email is required''), w)
      else if \<not> EmailExist (flt 0) (w_db w) email
      then ((200, SuccessResponse ''success''), w)
      else
        let prEmailExist = CheckPasswordResetEmailExist (flt 1) (w_db w) email in
        if prEmailExist
        then
          (case CheckPasswordResetEmailExpire e (\<lambda>i. flt (2 + i)) (w_db w) email of
             (expired, db1) \<Rightarrow>
               if expired
               then createNewPasswordReset e flt rand send_fails (w\<lparr>w_db := db1\<rparr>) email
               else
                 (case GetPasswordReset (flt 4) db1 email of
                    Inl err \<Rightarrow> ((500, ErrorResponseErr err), w\<lparr>w_db := db1\<rparr>)
                  | Inr pr \<Rightarrow>
                      if send_fails
                      then ((500, ErrorResponseErr ErrSendEmail), w\<lparr>w_db := db1\<rparr>)
                      else ((201, SuccessResponse ''success''),
                            \<lparr>w_db = db1, w_sent = w_sent w @ [pr]\<rparr>)))
        else createNewPasswordReset e flt rand send_fails w email)"

text \<open>
  The handler \<open>ResetPassword\<close>; \<open>bind\<close> is the result of \<open>c.ShouldBindJSON(&params)\<close>.
  Database calls: 0 and 1 \<open>ValidateEmailAndToken\<close>, 2 to 5
  \<open>PasswordService.ResetPassword\<close>, 6 the delete of the record.
\<close>

definition Password_ResetPassword ::
  "env \<Rightarrow> faults \<Rightarrow> DB \<Rightarrow> error + ResetPasswordParams \<Rightarrow> Response \<times> DB" where
  "Password_ResetPassword e flt db bind =
     (case bind of
        Inl err \<Rightarrow> ((400, ErrorResponseErr err), db)
      | Inr params \<Rightarrow>
          (case ValidateEmailAndToken e flt db (rpp_Email params) (rpp_Token params) of
             Inl err \<Rightarrow> ((500, ErrorResponseErr err), db)
           | Inr exist \<Rightarrow>
               if \<not> exist then ((400, ErrorResponse ''email and/or token is invalid''), db)
               else
                 (case PasswordService_ResetPassword e (\<lambda>i. flt (2 + i)) db params of
                    (Some err, db1) \<Rightarrow> ((500, ErrorResponseErr err), db1)
                  | (None, db1) \<Rightarrow>
                      (case DeletePasswordResetRecord e (flt 6) db1 (rpp_Email params)
                              (rpp_Token params) of
                         (Some err, db2) \<Rightarrow> ((500, ErrorResponseErr err), db2)
                       | (None, db2) \<Rightarrow> ((200, SuccessResponse ''success''), db2)))))"

section \<open>service.RoleService\<close>

definition RoleAdmin :: string where
  "RoleAdmin = ''Admin''"

text \<open>\<open>model.Role\<close> as a value of the program: the row and the loaded permissions.\<close>

record RoleValue = Role +
  role_Permissions :: "Permission list"

text \<open>
  \<open>Where(&model.Role{ID: id})\<close>: a struct condition uses the non-zero fields only, so
  an empty id is no condition at all.
\<close>

definition where_Role_ID :: "string \<Rightarrow> Role \<Rightarrow> bool" where
  "where_Role_ID rid r = (role_DeletedAt r = None \<and> (rid = [] \<or> role_ID r = rid))"

text \<open>\<open>Association("Permissions").Find\<close>: the permissions linked to the role.\<close>

definition find_Permissions :: "DB \<Rightarrow> string \<Rightarrow> Permission list" where
  "find_Permissions db rid =
     [p. rp \<leftarrow> role_permissions db, rp_RoleID rp = rid,
         p \<leftarrow> permissions db, perm_ID p = rp_PermissionID rp]"

text \<open>
  \<open>RoleService.Update\<close>. Database calls: 0 the lookup, 1 the count of the permissions,
  2 the save of the role, 3 the replacement of its permission links, 4 the load of the
  permissions, 5 the commit. The early returns before the save leave the transaction
  open with nothing written.
\<close>

definition RoleService_Update ::
  "faults \<Rightarrow> DB \<Rightarrow> RoleValue \<Rightarrow> (error + RoleValue) \<times> DB" where
  "RoleService_Update flt db role =
     (case db_First (flt 0) (where_Role_ID (role_ID role)) (roles db) of
        Inl err \<Rightarrow>
          if errors_Is err ErrRecordNotFound
          then (Inl (Wrapf ''service.RoleService.Update'' ErrRoleNotFound), db)
          else (Inl (Wrapf ''service.RoleService.Update'' err), db)
      | Inr tmpRole \<Rightarrow>
          if role_Name tmpRole = RoleAdmin
          then (Inl (Wrapf ''service.RoleService.Update'' ErrAdminRoleCannotBeModified), db)
          else
            let permIDs = map perm_ID (role_Permissions role) in
            (case db_Count (flt 1) (\<lambda>p. perm_ID p \<in> set permIDs) (permissions db) of
               Inl err \<Rightarrow> (Inl (Wrapf ''service.RoleService.Update'' err), db)
             | Inr count \<Rightarrow>
                 if count \<noteq> length (role_Permissions role)
                 then (Inl (Wrapf ''service.RoleService.Update'' ErrPermissionNotFound), db)
                 else
                   let role = role\<lparr>role_CreatedAt := role_CreatedAt tmpRole\<rparr> in
                   if flt 2 then (Inl (Wrapf ''service.RoleService.Update'' ErrStorage), db)
                   else
                     let row = Role.truncate role;
                         tx = db\<lparr>roles :=
                                (if role_ID role \<in> set (map role_ID (roles db))
                                 then map (\<lambda>r. if role_ID r = role_ID role then row else r)
                                        (roles db)
                                 else roles db @ [row])\<rparr>
                     in
                     if flt 3 then (Inl (Wrapf ''service.RoleService.Update'' ErrStorage), db)
                     else
                       let tx = tx\<lparr>role_permissions :=
                                  filter (\<lambda>rp. rp_RoleID rp \<noteq> role_ID role)
                                    (role_permissions tx) @
                                  map (\<lambda>pid. \<lparr>rp_RoleID = role_ID role, rp_PermissionID = pid\<rparr>)
                                    permIDs\<rparr>
                       in
                       if flt 4 then (Inl (Wrapf ''service.RoleService.Update'' ErrStorage), db)
                       else
                         let role = role\<lparr>role_Permissions :=
                                      find_Permissions tx (role_ID role)\<rparr>
                         in
                         if flt 5
                         then (Inl (Wrapf ''service.RoleService.Update'' ErrStorage), db)
                         else (Inr role, tx)))"

text \<open>
  \<open>RoleService.DeleteByID\<close>. Database calls: 0 the lookup, 1 the delete.
  \<open>Delete(&model.Role{ID: roleID})\<close> is the soft delete of the role row, stamped with
  the time \<open>t\<close> of the call; gorm refuses a delete without a primary key or condition.
\<close>

definition RoleService_DeleteByID :: "int \<Rightarrow> faults \<Rightarrow> DB \<Rightarrow> string \<Rightarrow> error option \<times> DB" where
  "RoleService_DeleteByID t flt db roleID =
     (case db_First (flt 0) (where_Role_ID roleID) (roles db) of
        Inl err \<Rightarrow>
          if errors_Is err ErrRecordNotFound
          then (Some (Wrapf ''service.RoleService.Update'' ErrRoleNotFound), db)
          else (Some (Wrapf ''service.RoleService.Update'' err), db)
      | Inr tmpRole \<Rightarrow>
          if role_Name tmpRole = RoleAdmin
          then (Some (Wrapf ''service.RoleService.Update'' ErrAdminRoleCannotBeModified), db)
          else if flt 1 \<or> roleID = []
          then (Some (Wrapf ''service.RoleService.Delete'' ErrStorage), db)
          else (None,
                db\<lparr>roles :=
                     map (\<lambda>r. if role_DeletedAt r = None \<and> role_ID r = roleID
                               then r\<lparr>role_DeletedAt := Some t\<rparr> else r)
                       (roles db)\<rparr>))"

section \<open>Example data\<close>

text \<open>
  A clock, a key and a toy password hash (the hash of \<open>pw\<close> is \<open>$pw\<close>); one user,
  Alice, with a role; the 30-day refresh token that \<open>LogIn\<close> issues to her at time 1000.
\<close>

definition ex_hash_matches :: "string \<Rightarrow> string \<Rightarrow> bool" where
  "ex_hash_matches h pw = (h = CHR ''$'' # pw)"

definition ex_hash :: "string \<Rightarrow> string option" where
  "ex_hash pw = Some (CHR ''$'' # pw)"

definition ex_env :: env where
  "ex_env = \<lparr>now = 1000, JWT_SECRET_KEY = ''secret'',
              bcrypt_Compare = ex_hash_matches, bcrypt_Generate = ex_hash\<rparr>"

definition ex_alice :: User where
  "ex_alice = \<lparr>usr_ID = 1, usr_OrganizationID = 7, usr_Name = ''Alice'',
                usr_Email = ''alice@example.com'', usr_Password = ''$pw123'',
                usr_CurrentTeamID = 7, usr_LineID = ''alice-line'',
                usr_RoleID = Some ''r1'', usr_DeletedAt = None\<rparr>"

definition ex_db :: DB where
  "ex_db = \<lparr>users = [ex_alice], roles = [], role_permissions = [], permissions = [],
             refresh_tokens = [], activity_logs = [], password_resets = []\<rparr>"

definition ex_refresh_token :: tokenString where
  "ex_refresh_token =
     Signed SigningMethodHS256 ''secret''
       [(''id'', JNumber 1), (''type'', JString ''refresh''), (''exp'', JNumber 2593000)]"

definition ex_other_token :: tokenString where
  "ex_other_token =
     Signed SigningMethodHS256 ''secret''
       [(''id'', JNumber 1), (''type'', JString ''reset''), (''exp'', JNumber 2593000)]"

definition ex_decode :: "string \<Rightarrow> tokenString" where
  "ex_decode s = (if s = ''R'' then ex_refresh_token else if s = ''O'' then ex_other_token
                  else NotAToken s)"

definition ex_teamFindByID :: "nat \<Rightarrow> error option" where
  "ex_teamFindByID teamID = (if teamID = 7 then None else Some ErrRecordNotFound)"

text \<open>
  The store after Alice's login (her refresh token recorded, the login logged), and the
  same store after her logout.
\<close>

definition ex_db_session :: DB where
  "ex_db_session =
     ex_db\<lparr>refresh_tokens := [\<lparr>rt_Token = ex_refresh_token, rt_Revoked = False\<rparr>],
           activity_logs := [\<lparr>al_UserID = 1, al_ActivityType = ActTypeLogin\<rparr>]\<rparr>"

definition ex_db_revoked :: DB where
  "ex_db_revoked =
     ex_db_session\<lparr>refresh_tokens := [\<lparr>rt_Token = ex_refresh_token, rt_Revoked = True\<rparr>]\<rparr>"

text \<open>
  A password-reset record for Alice, created ten seconds ago, the store that holds it,
  and the request that completes the reset.
\<close>

definition ex_reset :: PasswordReset where
  "ex_reset = \<lparr>pr_Email = ''alice@example.com'', pr_Token = ''tok'', pr_CreatedAt = 990,
                pr_DeletedAt = None\<rparr>"

definition ex_db_reset :: DB where
  "ex_db_reset = ex_db\<lparr>password_resets := [ex_reset]\<rparr>"

definition ex_params :: ResetPasswordParams where
  "ex_params = \<lparr>rpp_Email = ''alice@example.com'', rpp_Password = ''new'',
                 rpp_Token = ''tok''\<rparr>"

text \<open>
  Alice's team with its Admin role and an Editor role, both granted the permission to
  read users; Bob, a user of the team without a role.
\<close>

definition ex_admin_role :: Role where
  "ex_admin_role = \<lparr>role_ID = ''r1'', role_CreatedAt = 10, role_DeletedAt = None,
                     role_Name = ''Admin'', role_Description = ''Administrator'',
                     role_TeamID = 7\<rparr>"

definition ex_editor_role :: Role where
  "ex_editor_role = \<lparr>role_ID = ''r2'', role_CreatedAt = 20, role_DeletedAt = None,
                      role_Name = ''Editor'', role_Description = ''Edits'',
                      role_TeamID = 7\<rparr>"

definition ex_perm_read :: Permission where
  "ex_perm_read = \<lparr>perm_ID = ''p1'', perm_Name = ''user:read''\<rparr>"

definition ex_perm_delete :: Permission where
  "ex_perm_delete = \<lparr>perm_ID = ''p2'', perm_Name = ''user:delete''\<rparr>"

definition ex_bob :: User where
  "ex_bob = \<lparr>usr_ID = 2, usr_OrganizationID = 7, usr_Name = ''Bob'',
              usr_Email = ''bob@example.com'', usr_Password = ''$hunter2'',
              usr_CurrentTeamID = 7, usr_LineID = ''bob-line'',
              usr_RoleID = None, usr_DeletedAt = None\<rparr>"

definition ex_db_roles :: DB where
  "ex_db_roles =
     ex_db\<lparr>users := [ex_alice, ex_bob],
           roles := [ex_admin_role, ex_editor_role],
           permissions := [ex_perm_read, ex_perm_delete],
           role_permissions := [\<lparr>rp_RoleID = ''r1'', rp_PermissionID = ''p1''\<rparr>,
                                \<lparr>rp_RoleID = ''r2'', rp_PermissionID = ''p1''\<rparr>]\<rparr>"

definition ex_role_update :: RoleValue where
  "ex_role_update = \<lparr>role_ID = ''r1'', role_CreatedAt = 0, role_DeletedAt = None,
                      role_Name = ''Owner'', role_Description = ''renamed'',
                      role_TeamID = 7, role_Permissions = []\<rparr>"

text \<open>Alice's credentials as she types them, and the permission catalogue of the example.\<close>

definition ex_cred :: LoginParams where
  "ex_cred = \<lparr>lp_Email = ''Alice@Example.com'', lp_Password = ''pw123'',
               lp_IsLongLiveToken = False\<rparr>"

definition ex_access_token :: tokenString where
  "ex_access_token =
     Signed SigningMethodHS256 ''secret''
       [(''id'', JNumber 1), (''type'', JString ''access''), (''exp'', JNumber 2593000)]"

definition ex_line_refresh_token :: tokenString where
  "ex_line_refresh_token =
     Signed SigningMethodHS256 ''secret''
       [(''id'', JNumber 1), (''type'', JString ''refresh''), (''exp'', JNumber 605800)]"

text \<open>The world of the password handlers before any request: no email sent yet.\<close>

definition ex_world :: World where
  "ex_world = \<lparr>w_db = ex_db, w_sent = []\<rparr>"

section \<open>Evaluation of the definitions\<close>

lemmas ex_defs =
  ex_env_def ex_alice_def ex_db_def ex_refresh_token_def ex_other_token_def ex_decode_def
  ex_teamFindByID_def no_faults_def ex_hash_matches_def ex_hash_def

lemmas parse_defs =
  ParseToken_def jwt_Parse_def verifyExp_def verifyIat_def verifyNbf_def claim_def

lemmas create_defs =
  CreateAccessToken_def CreateRefreshToken_def CreateJwtToken_def SignedString_def

section \<open>The authentication gate and the purpose of a token\<close>

lemma GetByToken_Inr_type:
  assumes "GetByToken e flt db s = Inr u"
  shows "\<exists>c. ParseToken e s = Inr c \<and>
           (claim c ''type'' = Some (JString ''access'') \<or>
            claim c ''type'' = Some (JString ''refresh''))"
  using assms by (auto simp: GetByToken_def Let_def split: sum.splits if_splits)

lemma AuthRequired_SetUser:
  assumes "AuthRequired e flt decode teamFindByID db authHeader = SetUser u"
  shows "GetByToken e flt db (decode (drop 7 authHeader)) = Inr u"
  using assms
  by (auto simp: AuthRequired_def Let_def split: sum.splits if_splits option.splits)

text \<open>
  C1, as stated, fails: the refresh token that \<open>LogIn\<close> issues to Alice decodes to the
  purpose \<open>refresh\<close>, and the gate of the access-protected routes resolves it to Alice.
\<close>

theorem C1_refresh_token_passes_gate:
  "CreateRefreshToken ex_env (usr_ID ex_alice) (now ex_env + 3600 * 24 * 30)
     = Inr ex_refresh_token
   \<and> ParseToken ex_env ex_refresh_token =
       Inr [(''id'', JNumber 1), (''type'', JString ''refresh''), (''exp'', JNumber 2593000)]
   \<and> claim [(''id'', JNumber 1), (''type'', JString ''refresh''), (''exp'', JNumber 2593000)]
        ''type'' = Some (JString ''refresh'')
   \<and> AuthRequired ex_env no_faults ex_decode ex_teamFindByID ex_db ''Bearer R''
       = SetUser ex_alice"
  by (simp add: ex_defs parse_defs create_defs AuthRequired_def GetByToken_def db_First_def
        id_matches_def)

text \<open>
  C1, amended: authentication succeeds only if the token verifies and its purpose claim
  is \<open>access\<close> or \<open>refresh\<close>; a verified token with any other purpose claim is
  rejected with the invalid-token-type error; a verified token of purpose \<open>refresh\<close>
  resolves to the principal its id claim names, as an access token does.
\<close>

theorem GetByToken_accepts_access_and_refresh:
  "(AuthRequired e flt decode teamFindByID db authHeader = SetUser u \<longrightarrow>
      (\<exists>c. ParseToken e (decode (drop 7 authHeader)) = Inr c \<and>
           (claim c ''type'' = Some (JString ''access'') \<or>
            claim c ''type'' = Some (JString ''refresh''))))
   \<and> (ParseToken e s = Inr c' \<and> claim c' ''type'' \<noteq> Some (JString ''access'') \<and>
        claim c' ''type'' \<noteq> Some (JString ''refresh'') \<longrightarrow>
        GetByToken e flt db s =
          Inl (ErrorsNew ''service.UserService.GetByToken: invalid token type''))
   \<and> (ParseToken e s2 = Inr c2 \<and> claim c2 ''type'' = Some (JString ''refresh'') \<and> \<not> flt 0 \<and>
        db_First False (\<lambda>u. usr_DeletedAt u = None \<and> id_matches (claim c2 ''id'') u)
          (users db) = Inr u2 \<longrightarrow>
        GetByToken e flt db s2 = Inr u2)"
proof (intro conjI impI)
  assume "AuthRequired e flt decode teamFindByID db authHeader = SetUser u"
  then have "GetByToken e flt db (decode (drop 7 authHeader)) = Inr u"
    by (rule AuthRequired_SetUser)
  then show "\<exists>c. ParseToken e (decode (drop 7 authHeader)) = Inr c \<and>
           (claim c ''type'' = Some (JString ''access'') \<or>
            claim c ''type'' = Some (JString ''refresh''))"
    by (rule GetByToken_Inr_type)
next
  assume "ParseToken e s = Inr c' \<and> claim c' ''type'' \<noteq> Some (JString ''access'') \<and>
        claim c' ''type'' \<noteq> Some (JString ''refresh'')"
  then show "GetByToken e flt db s =
          Inl (ErrorsNew ''service.UserService.GetByToken: invalid token type'')"
    by (simp add: GetByToken_def)
next
  assume "ParseToken e s2 = Inr c2 \<and> claim c2 ''type'' = Some (JString ''refresh'') \<and> \<not> flt 0 \<and>
        db_First False (\<lambda>u. usr_DeletedAt u = None \<and> id_matches (claim c2 ''id'') u)
          (users db) = Inr u2"
  then show "GetByToken e flt db s2 = Inr u2"
    by (simp add: GetByToken_def)
qed

theorem GetByToken_accepts_access_and_refresh_witness:
  "AuthRequired ex_env no_faults ex_decode ex_teamFindByID ex_db ''Bearer R'' = SetUser ex_alice
   \<and> (\<exists>c. ParseToken ex_env (ex_decode (drop 7 ''Bearer R'')) = Inr c \<and>
           (claim c ''type'' = Some (JString ''access'') \<or>
            claim c ''type'' = Some (JString ''refresh'')))
   \<and> ParseToken ex_env ex_other_token =
        Inr [(''id'', JNumber 1), (''type'', JString ''reset''), (''exp'', JNumber 2593000)]
   \<and> GetByToken ex_env no_faults ex_db ex_other_token =
        Inl (ErrorsNew ''service.UserService.GetByToken: invalid token type'')
   \<and> ParseToken ex_env ex_refresh_token =
        Inr [(''id'', JNumber 1), (''type'', JString ''refresh''), (''exp'', JNumber 2593000)]
   \<and> GetByToken ex_env no_faults ex_db ex_refresh_token = Inr ex_alice"
  using GetByToken_accepts_access_and_refresh
    [of ex_env no_faults ex_decode ex_teamFindByID ex_db "''Bearer R''" ex_alice
        ex_other_token
        "[(''id'', JNumber 1), (''type'', JString ''reset''), (''exp'', JNumber 2593000)]"
        ex_refresh_token
        "[(''id'', JNumber 1), (''type'', JString ''refresh''), (''exp'', JNumber 2593000)]"
        ex_alice]
  by (simp add: ex_defs parse_defs AuthRequired_def GetByToken_def db_First_def
        id_matches_def)

section \<open>Logout\<close>

lemma GetByToken_reads_users_only:
  "users db' = users db \<Longrightarrow> flt' 0 = flt 0 \<Longrightarrow>
     GetByToken e flt' db' s = GetByToken e flt db s"
  by (simp add: GetByToken_def Let_def split: sum.splits)

text \<open>
  C2, as stated, fails: with no refresh-token record in the store, \<open>LogOut\<close> of Alice's
  refresh token returns no error (and logs a logout).
\<close>

theorem C2_LogOut_unknown_token_succeeds:
  "refresh_tokens ex_db = []
   \<and> LogOut ex_env no_faults ex_db ex_refresh_token =
       (None, ex_db\<lparr>activity_logs :=
                [\<lparr>al_UserID = 1, al_ActivityType = ActTypeLogout\<rparr>]\<rparr>)"
  by (simp add: ex_defs parse_defs LogOut_def GetByToken_def db_First_def id_matches_def)

text \<open>
  C2, amended: when no database call fails and the token verifies and names a stored
  principal, \<open>LogOut\<close> marks every stored refresh-token record with that token string
  revoked and appends a logout entry for that principal; when no record has that token
  string the revoke changes nothing and \<open>LogOut\<close> still succeeds.
\<close>

theorem LogOut_revokes_and_logs:
  "\<not> flt 0 \<and> \<not> flt 1 \<and> \<not> flt 2 \<and> GetByToken e no_faults db tok = Inr usr \<longrightarrow>
     LogOut e flt db tok =
       (None,
        db\<lparr>refresh_tokens :=
             map (\<lambda>rt. if rt_Token rt = tok then rt\<lparr>rt_Revoked := True\<rparr> else rt)
               (refresh_tokens db),
           activity_logs := activity_logs db @
             [\<lparr>al_UserID = usr_ID usr, al_ActivityType = ActTypeLogout\<rparr>]\<rparr>)
     \<and> (\<forall>rt \<in> set (refresh_tokens (snd (LogOut e flt db tok))).
           rt_Token rt = tok \<longrightarrow> rt_Revoked rt)
     \<and> ((\<forall>rt \<in> set (refresh_tokens db). rt_Token rt \<noteq> tok) \<longrightarrow>
           refresh_tokens (snd (LogOut e flt db tok)) = refresh_tokens db)"
proof (intro impI)
  assume h: "\<not> flt 0 \<and> \<not> flt 1 \<and> \<not> flt 2 \<and> GetByToken e no_faults db tok = Inr usr"
  let ?rts = "map (\<lambda>rt. if rt_Token rt = tok then rt\<lparr>rt_Revoked := True\<rparr> else rt)
               (refresh_tokens db)"
  have g: "GetByToken e (\<lambda>i. flt (Suc i)) (db\<lparr>refresh_tokens := ?rts\<rparr>) tok = Inr usr"
    using h GetByToken_reads_users_only [of "db\<lparr>refresh_tokens := ?rts\<rparr>" db "\<lambda>i. flt (Suc i)" no_faults e tok]
    by (simp add: no_faults_def)
  have r: "LogOut e flt db tok =
       (None, db\<lparr>refresh_tokens := ?rts,
           activity_logs := activity_logs db @
             [\<lparr>al_UserID = usr_ID usr, al_ActivityType = ActTypeLogout\<rparr>]\<rparr>)"
    using h g by (simp add: LogOut_def Let_def)
  have a: "\<forall>rt \<in> set ?rts. rt_Token rt = tok \<longrightarrow> rt_Revoked rt"
    unfolding set_map ball_simps by simp
  have b: "(\<forall>rt \<in> set (refresh_tokens db). rt_Token rt \<noteq> tok) \<longrightarrow> ?rts = refresh_tokens db"
    by (simp add: map_idI)
  have s: "refresh_tokens (snd (LogOut e flt db tok)) = ?rts"
    by (simp add: r)
  show "LogOut e flt db tok =
       (None,
        db\<lparr>refresh_tokens := ?rts,
           activity_logs := activity_logs db @
             [\<lparr>al_UserID = usr_ID usr, al_ActivityType = ActTypeLogout\<rparr>]\<rparr>)
     \<and> (\<forall>rt \<in> set (refresh_tokens (snd (LogOut e flt db tok))).
           rt_Token rt = tok \<longrightarrow> rt_Revoked rt)
     \<and> ((\<forall>rt \<in> set (refresh_tokens db). rt_Token rt \<noteq> tok) \<longrightarrow>
           refresh_tokens (snd (LogOut e flt db tok)) = refresh_tokens db)"
    unfolding s by (intro conjI r a b)
qed

theorem LogOut_revokes_and_logs_witness:
  "GetByToken ex_env no_faults ex_db_session ex_refresh_token = Inr ex_alice
   \<and> LogOut ex_env no_faults ex_db_session ex_refresh_token =
       (None,
        ex_db\<lparr>refresh_tokens := [\<lparr>rt_Token = ex_refresh_token, rt_Revoked = True\<rparr>],
              activity_logs := [\<lparr>al_UserID = 1, al_ActivityType = ActTypeLogin\<rparr>,
                                \<lparr>al_UserID = 1, al_ActivityType = ActTypeLogout\<rparr>]\<rparr>)"
  using LogOut_revokes_and_logs [of no_faults ex_env ex_db_session ex_refresh_token ex_alice]
  by (simp add: ex_defs ex_db_session_def parse_defs GetByToken_def db_First_def
        id_matches_def)

text \<open>
  The revoke and the log entry are separate writes: when the insert of the log entry
  fails, the revoke stays.
\<close>

lemma LogOut_revoke_stays_when_log_fails:
  "LogOut ex_env (\<lambda>i. i = 2) ex_db_session ex_refresh_token =
     (Some (Wrapf ''service.AuthService.LogOut'' ErrStorage),
      ex_db_session\<lparr>refresh_tokens :=
        [\<lparr>rt_Token = ex_refresh_token, rt_Revoked = True\<rparr>]\<rparr>)"
  by (simp add: ex_defs ex_db_session_def parse_defs LogOut_def GetByToken_def db_First_def
        id_matches_def)

section \<open>Refresh\<close>

lemma CreateAccessToken_parses:
  "\<exists>acc c. CreateAccessToken e uid ex = Inr acc \<and>
       (ex = 0 \<or> now e \<le> ex \<longrightarrow>
          ParseToken e acc = Inr c \<and> claim c ''id'' = Some (JNumber (int uid)) \<and>
          claim c ''type'' = Some (JString ''access''))"
  by (simp add: create_defs parse_defs Let_def)

text \<open>
  C3: when the stored record of a refresh token is revoked, \<open>RefreshToken\<close> fails with
  the revoked-token error and returns no token; when it is not revoked and the token
  verifies with purpose \<open>refresh\<close>, \<open>RefreshToken\<close> returns an access token with the
  subject id of the refresh token; the store is the same afterwards in both cases.
\<close>

theorem RefreshToken_revoked_or_reissued:
  "(db_First False (\<lambda>rt. rt_Token rt = tok) (refresh_tokens db) = Inr rt \<and> rt_Revoked rt \<longrightarrow>
      AuthService_RefreshToken e False db tok =
        (Inl (Wrapf ''service.AuthService.RefreshToken'' ErrRevokedToken), db))
   \<and> (db_First False (\<lambda>rt. rt_Token rt = tok2) (refresh_tokens db) = Inr rt2 \<and>
        \<not> rt_Revoked rt2 \<and> ParseToken e tok2 = Inr c \<and>
        claim c ''type'' = Some (JString ''refresh'') \<and>
        claim c ''id'' = Some (JNumber (int uid)) \<longrightarrow>
      (\<exists>acc c'. AuthService_RefreshToken e False db tok2 = (Inr acc, db) \<and>
          ParseToken e acc = Inr c' \<and>
          claim c' ''id'' = Some (JNumber (int uid)) \<and>
          claim c' ''type'' = Some (JString ''access'')))"
proof (intro conjI impI)
  assume "db_First False (\<lambda>rt. rt_Token rt = tok) (refresh_tokens db) = Inr rt \<and> rt_Revoked rt"
  then show "AuthService_RefreshToken e False db tok =
        (Inl (Wrapf ''service.AuthService.RefreshToken'' ErrRevokedToken), db)"
    by (simp add: AuthService_RefreshToken_def)
next
  assume h: "db_First False (\<lambda>rt. rt_Token rt = tok2) (refresh_tokens db) = Inr rt2 \<and>
        \<not> rt_Revoked rt2 \<and> ParseToken e tok2 = Inr c \<and>
        claim c ''type'' = Some (JString ''refresh'') \<and>
        claim c ''id'' = Some (JNumber (int uid))"
  obtain acc c' where acc: "CreateAccessToken e uid (now e + 3600 * 24 * 30) = Inr acc"
    and p: "ParseToken e acc = Inr c' \<and> claim c' ''id'' = Some (JNumber (int uid)) \<and>
          claim c' ''type'' = Some (JString ''access'')"
    using CreateAccessToken_parses [of e uid "now e + 3600 * 24 * 30"] by auto
  have "AuthService_RefreshToken e False db tok2 = (Inr acc, db)"
    using h acc by (simp add: AuthService_RefreshToken_def Let_def)
  with p show "\<exists>acc c'. AuthService_RefreshToken e False db tok2 = (Inr acc, db) \<and>
          ParseToken e acc = Inr c' \<and>
          claim c' ''id'' = Some (JNumber (int uid)) \<and>
          claim c' ''type'' = Some (JString ''access'')"
    by blast
qed

theorem RefreshToken_revoked_or_reissued_witness:
  "AuthService_RefreshToken ex_env False ex_db_revoked ex_refresh_token =
     (Inl (Wrapf ''service.AuthService.RefreshToken'' ErrRevokedToken), ex_db_revoked)
   \<and> (\<exists>acc c'. AuthService_RefreshToken ex_env False ex_db_session ex_refresh_token =
          (Inr acc, ex_db_session) \<and>
          ParseToken ex_env acc = Inr c' \<and>
          claim c' ''id'' = Some (JNumber (int 1)) \<and>
          claim c' ''type'' = Some (JString ''access''))"
proof -
  have a: "db_First False (\<lambda>rt. rt_Token rt = ex_refresh_token) (refresh_tokens ex_db_revoked)
             = Inr \<lparr>rt_Token = ex_refresh_token, rt_Revoked = True\<rparr>"
    by (simp add: ex_db_revoked_def ex_db_session_def ex_db_def db_First_def)
  have b: "db_First False (\<lambda>rt. rt_Token rt = ex_refresh_token) (refresh_tokens ex_db_session)
             = Inr \<lparr>rt_Token = ex_refresh_token, rt_Revoked = False\<rparr>"
    by (simp add: ex_db_session_def ex_db_def db_First_def)
  have c: "ParseToken ex_env ex_refresh_token =
        Inr [(''id'', JNumber 1), (''type'', JString ''refresh''), (''exp'', JNumber 2593000)]"
    by (simp add: ex_defs parse_defs)
  have d: "claim [(''id'', JNumber 1), (''type'', JString ''refresh''),
                  (''exp'', JNumber 2593000)] ''type'' = Some (JString ''refresh'')
         \<and> claim [(''id'', JNumber 1), (''type'', JString ''refresh''),
                  (''exp'', JNumber 2593000)] ''id'' = Some (JNumber (int 1))"
    by (simp add: claim_def)
  have r: "rt_Revoked \<lparr>rt_Token = ex_refresh_token, rt_Revoked = True\<rparr>
         \<and> \<not> rt_Revoked \<lparr>rt_Token = ex_refresh_token, rt_Revoked = False\<rparr>"
    by simp
  show ?thesis
    using RefreshToken_revoked_or_reissued
      [of ex_refresh_token ex_db_revoked "\<lparr>rt_Token = ex_refresh_token, rt_Revoked = True\<rparr>"
          ex_env]
      RefreshToken_revoked_or_reissued
      [of _ ex_db_session _ ex_env
          ex_refresh_token "\<lparr>rt_Token = ex_refresh_token, rt_Revoked = False\<rparr>"
          "[(''id'', JNumber 1), (''type'', JString ''refresh''), (''exp'', JNumber 2593000)]" 1]
      a b c d r
    by blast
qed

section \<open>Password reset: validation and completion\<close>

lemmas password_defs =
  ValidateEmailAndToken_def checkPasswordResetExist_def CheckPasswordResetExpire_def
  passwordResetRecordExpiryTime_def DeletePasswordResetRecord_def db_First_def db_Count_def

lemmas ex_reset_defs = ex_reset_def ex_db_reset_def ex_params_def

text \<open>
  What \<open>ValidateEmailAndToken\<close> returns when no database call fails: an error when no
  record has the pair, else whether the first such record was created at most 3600
  seconds ago.
\<close>

lemma ValidateEmailAndToken_value:
  "ValidateEmailAndToken e no_faults db email token =
     (case filter (\<lambda>r. pr_DeletedAt r = None \<and> pr_Email r = email \<and> pr_Token r = token)
             (password_resets db) of
        [] \<Rightarrow> Inl (Wrapf ''service.PasswordService.ValidateEmailAndToken''
                  (Wrapf ''service.PasswordService.CheckPasswordResetExpire''
                     ErrRecordNotFound))
      | pr # _ \<Rightarrow> Inr (now e - pr_CreatedAt pr \<le> 3600))"
  by (auto simp: password_defs no_faults_def Let_def split: list.splits)

text \<open>
  C4 at the failing input: no password-reset record is stored, and the validation of a
  pair returns the record-not-found error of the lookup, not \<open>false\<close>.
\<close>

theorem ValidateEmailAndToken_no_record_is_error:
  "password_resets ex_db = []
   \<and> ValidateEmailAndToken ex_env no_faults ex_db ''alice@example.com'' ''tok'' =
       Inl (Wrapf ''service.PasswordService.ValidateEmailAndToken''
             (Wrapf ''service.PasswordService.CheckPasswordResetExpire'' ErrRecordNotFound))
   \<and> ValidateEmailAndToken ex_env no_faults ex_db ''alice@example.com'' ''tok'' \<noteq> Inr False"
  by (simp add: ValidateEmailAndToken_value ex_db_def)

text \<open>
  C5 at the failing input: the reset of Alice's password with the stored pair succeeds,
  the validation of the same pair right after it returns the record-not-found error,
  not \<open>false\<close>; and with no record stored the handler answers 500 with that error, not
  400 with the invalid-token message.
\<close>

theorem ResetPassword_then_validate_is_error:
  "fst (Password_ResetPassword ex_env no_faults ex_db_reset (Inr ex_params)) =
       (200, SuccessResponse ''success'')
   \<and> users (snd (Password_ResetPassword ex_env no_faults ex_db_reset (Inr ex_params))) =
       [ex_alice\<lparr>usr_Password := ''$new''\<rparr>]
   \<and> password_resets (snd (Password_ResetPassword ex_env no_faults ex_db_reset (Inr ex_params)))
       = [ex_reset\<lparr>pr_DeletedAt := Some 1000\<rparr>]
   \<and> ValidateEmailAndToken ex_env no_faults
        (snd (Password_ResetPassword ex_env no_faults ex_db_reset (Inr ex_params)))
        ''alice@example.com'' ''tok'' =
       Inl (Wrapf ''service.PasswordService.ValidateEmailAndToken''
             (Wrapf ''service.PasswordService.CheckPasswordResetExpire'' ErrRecordNotFound))
   \<and> fst (Password_ResetPassword ex_env no_faults ex_db (Inr ex_params)) =
       (500, ErrorResponseErr
          (Wrapf ''service.PasswordService.ValidateEmailAndToken''
             (Wrapf ''service.PasswordService.CheckPasswordResetExpire'' ErrRecordNotFound)))"
proof -
  have v: "ValidateEmailAndToken ex_env no_faults ex_db_reset ''alice@example.com'' ''tok''
             = Inr True"
    by (simp add: ValidateEmailAndToken_value ex_reset_defs ex_db_def ex_env_def)
  have v0: "ValidateEmailAndToken ex_env no_faults ex_db ''alice@example.com'' ''tok'' =
       Inl (Wrapf ''service.PasswordService.ValidateEmailAndToken''
             (Wrapf ''service.PasswordService.CheckPasswordResetExpire'' ErrRecordNotFound))"
    by (simp add: ValidateEmailAndToken_value ex_db_def)
  have p: "PasswordService_ResetPassword ex_env (\<lambda>i. no_faults (2 + i)) ex_db_reset ex_params
             = (None, ex_db_reset\<lparr>users := [ex_alice\<lparr>usr_Password := ''$new''\<rparr>]\<rparr>)"
    by (simp add: PasswordService_ResetPassword_def HashPassword_def GetByEmail_def
          UserService_Update_def FindByID_def db_First_def ex_defs ex_reset_defs)
  have d: "DeletePasswordResetRecord ex_env (no_faults 6)
             (ex_db_reset\<lparr>users := [ex_alice\<lparr>usr_Password := ''$new''\<rparr>]\<rparr>)
             ''alice@example.com'' ''tok'' =
           (None, ex_db_reset\<lparr>users := [ex_alice\<lparr>usr_Password := ''$new''\<rparr>],
                    password_resets := [ex_reset\<lparr>pr_DeletedAt := Some 1000\<rparr>]\<rparr>)"
    by (simp add: DeletePasswordResetRecord_def ex_defs ex_reset_defs)
  have r: "Password_ResetPassword ex_env no_faults ex_db_reset (Inr ex_params) =
       ((200, SuccessResponse ''success''),
        ex_db_reset\<lparr>users := [ex_alice\<lparr>usr_Password := ''$new''\<rparr>],
                    password_resets := [ex_reset\<lparr>pr_DeletedAt := Some 1000\<rparr>]\<rparr>)"
    using v p d by (simp add: Password_ResetPassword_def ex_params_def)
  have r0: "Password_ResetPassword ex_env no_faults ex_db (Inr ex_params) =
       ((500, ErrorResponseErr
          (Wrapf ''service.PasswordService.ValidateEmailAndToken''
             (Wrapf ''service.PasswordService.CheckPasswordResetExpire'' ErrRecordNotFound))),
        ex_db)"
    using v0 by (simp add: Password_ResetPassword_def ex_params_def)
  have v2: "ValidateEmailAndToken ex_env no_faults
        (ex_db_reset\<lparr>users := [ex_alice\<lparr>usr_Password := ''$new''\<rparr>],
                    password_resets := [ex_reset\<lparr>pr_DeletedAt := Some 1000\<rparr>]\<rparr>)
        ''alice@example.com'' ''tok'' =
       Inl (Wrapf ''service.PasswordService.ValidateEmailAndToken''
             (Wrapf ''service.PasswordService.CheckPasswordResetExpire'' ErrRecordNotFound))"
    by (simp add: ValidateEmailAndToken_value)
  show ?thesis
    unfolding r r0 using v2 by simp
qed

text \<open>
  When the delete of the record fails after the password change, the handler answers
  500 with the error of the delete, and the new password hash stays.
\<close>

lemma ResetPassword_delete_failure_keeps_password:
  "Password_ResetPassword ex_env (\<lambda>i. i = 6) ex_db_reset (Inr ex_params) =
     ((500, ErrorResponseErr
              (Wrapf ''service.PasswordService.DeletePasswordResetRecord'' ErrStorage)),
      ex_db_reset\<lparr>users := [ex_alice\<lparr>usr_Password := ''$new''\<rparr>]\<rparr>)"
proof -
  have v: "ValidateEmailAndToken ex_env (\<lambda>i. i = 6) ex_db_reset ''alice@example.com'' ''tok''
             = Inr True"
    by (simp add: password_defs ex_reset_defs ex_db_def ex_env_def)
  have p: "PasswordService_ResetPassword ex_env (\<lambda>i. 2 + i = 6) ex_db_reset ex_params
             = (None, ex_db_reset\<lparr>users := [ex_alice\<lparr>usr_Password := ''$new''\<rparr>]\<rparr>)"
    by (simp add: PasswordService_ResetPassword_def HashPassword_def GetByEmail_def
          UserService_Update_def FindByID_def db_First_def ex_defs ex_reset_defs)
  show ?thesis
    using v p
    by (simp add: Password_ResetPassword_def DeletePasswordResetRecord_def ex_params_def)
qed

section \<open>Roles: the Admin role, deletion\<close>

lemmas ex_role_defs =
  ex_admin_role_def ex_editor_role_def ex_perm_read_def ex_perm_delete_def ex_bob_def
  ex_db_roles_def ex_role_update_def

text \<open>
  C6, as stated, fails: the delete of the Editor role succeeds and the row of
  role\_permissions that links it to a permission is still there.
\<close>

theorem C6_delete_keeps_permission_links:
  "RoleService_DeleteByID 1000 no_faults ex_db_roles ''r2'' =
     (None, ex_db_roles\<lparr>roles := [ex_admin_role,
                                    ex_editor_role\<lparr>role_DeletedAt := Some 1000\<rparr>]\<rparr>)
   \<and> \<lparr>rp_RoleID = ''r2'', rp_PermissionID = ''p1''\<rparr>
       \<in> set (role_permissions (snd (RoleService_DeleteByID 1000 no_faults ex_db_roles ''r2'')))"
  by (simp add: RoleService_DeleteByID_def where_Role_ID_def db_First_def RoleAdmin_def
        ex_role_defs ex_db_def no_faults_def)

text \<open>
  C6, amended: the update and the delete of a role named Admin fail with the
  admin-role error and leave the store as it was; the delete of a role with a matching
  id that is not named Admin succeeds and soft-deletes the role row, so that the role
  is no longer found, and leaves the rows of role\_permissions as they were.
\<close>

theorem Admin_role_immutable_delete_soft:
  "(db_First False (where_Role_ID (role_ID role)) (roles db) = Inr r \<and>
      role_Name r = ''Admin'' \<and> \<not> flt 0 \<longrightarrow>
      RoleService_Update flt db role =
        (Inl (Wrapf ''service.RoleService.Update'' ErrAdminRoleCannotBeModified), db))
   \<and> (db_First False (where_Role_ID rid) (roles db) = Inr r1 \<and>
        role_Name r1 = ''Admin'' \<and> \<not> flt 0 \<longrightarrow>
      RoleService_DeleteByID t flt db rid =
        (Some (Wrapf ''service.RoleService.Update'' ErrAdminRoleCannotBeModified), db))
   \<and> (db_First False (where_Role_ID rid2) (roles db) = Inr r2 \<and>
        role_Name r2 \<noteq> ''Admin'' \<and> rid2 \<noteq> [] \<and> \<not> flt 0 \<and> \<not> flt 1 \<longrightarrow>
      fst (RoleService_DeleteByID t flt db rid2) = None \<and>
      db_First False (where_Role_ID rid2)
        (roles (snd (RoleService_DeleteByID t flt db rid2))) = Inl ErrRecordNotFound \<and>
      role_permissions (snd (RoleService_DeleteByID t flt db rid2)) = role_permissions db)"
proof (intro conjI impI)
  assume "db_First False (where_Role_ID (role_ID role)) (roles db) = Inr r \<and>
      role_Name r = ''Admin'' \<and> \<not> flt 0"
  then show "RoleService_Update flt db role =
        (Inl (Wrapf ''service.RoleService.Update'' ErrAdminRoleCannotBeModified), db)"
    by (simp add: RoleService_Update_def RoleAdmin_def db_First_def)
next
  assume "db_First False (where_Role_ID rid) (roles db) = Inr r1 \<and>
        role_Name r1 = ''Admin'' \<and> \<not> flt 0"
  then show "RoleService_DeleteByID t flt db rid =
        (Some (Wrapf ''service.RoleService.Update'' ErrAdminRoleCannotBeModified), db)"
    by (simp add: RoleService_DeleteByID_def RoleAdmin_def db_First_def)
next
  assume h: "db_First False (where_Role_ID rid2) (roles db) = Inr r2 \<and>
        role_Name r2 \<noteq> ''Admin'' \<and> rid2 \<noteq> [] \<and> \<not> flt 0 \<and> \<not> flt 1"
  let ?rs = "map (\<lambda>r. if role_DeletedAt r = None \<and> role_ID r = rid2
                        then r\<lparr>role_DeletedAt := Some t\<rparr> else r) (roles db)"
  have d: "RoleService_DeleteByID t flt db rid2 = (None, db\<lparr>roles := ?rs\<rparr>)"
    using h by (simp add: RoleService_DeleteByID_def RoleAdmin_def db_First_def)
  have f: "filter (where_Role_ID rid2) ?rs = []"
    unfolding filter_empty_conv set_map ball_simps using h by (simp add: where_Role_ID_def)
  show "fst (RoleService_DeleteByID t flt db rid2) = None"
    by (simp add: d)
  show "db_First False (where_Role_ID rid2)
        (roles (snd (RoleService_DeleteByID t flt db rid2))) = Inl ErrRecordNotFound"
    using f by (simp add: d db_First_def)
  show "role_permissions (snd (RoleService_DeleteByID t flt db rid2)) = role_permissions db"
    by (simp add: d)
qed

theorem Admin_role_immutable_delete_soft_witness:
  "RoleService_Update no_faults ex_db_roles ex_role_update =
        (Inl (Wrapf ''service.RoleService.Update'' ErrAdminRoleCannotBeModified), ex_db_roles)
   \<and> RoleService_DeleteByID 1000 no_faults ex_db_roles ''r1'' =
        (Some (Wrapf ''service.RoleService.Update'' ErrAdminRoleCannotBeModified), ex_db_roles)
   \<and> fst (RoleService_DeleteByID 1000 no_faults ex_db_roles ''r2'') = None
   \<and> db_First False (where_Role_ID ''r2'')
        (roles (snd (RoleService_DeleteByID 1000 no_faults ex_db_roles ''r2'')))
        = Inl ErrRecordNotFound
   \<and> role_permissions (snd (RoleService_DeleteByID 1000 no_faults ex_db_roles ''r2''))
        = role_permissions ex_db_roles"
proof -
  have a: "db_First False (where_Role_ID (role_ID ex_role_update)) (roles ex_db_roles)
             = Inr ex_admin_role \<and> role_Name ex_admin_role = ''Admin'' \<and> \<not> no_faults 0"
    by (simp add: db_First_def where_Role_ID_def ex_role_defs ex_db_def no_faults_def)
  have b: "db_First False (where_Role_ID ''r1'') (roles ex_db_roles) = Inr ex_admin_role"
    by (simp add: db_First_def where_Role_ID_def ex_role_defs ex_db_def)
  have c: "db_First False (where_Role_ID ''r2'') (roles ex_db_roles) = Inr ex_editor_role
             \<and> role_Name ex_editor_role \<noteq> ''Admin'' \<and> ''r2'' \<noteq> [] \<and> \<not> no_faults 0
             \<and> \<not> no_faults 1"
    by (simp add: db_First_def where_Role_ID_def ex_role_defs ex_db_def no_faults_def)
  show ?thesis
    using Admin_role_immutable_delete_soft
      [of ex_role_update ex_db_roles ex_admin_role no_faults "''r1''" ex_admin_role 1000
          "''r2''" ex_editor_role]
      a b c
    by blast
qed

section \<open>Permission check\<close>

lemma set_permission_join_rows:
  "set (permission_join_rows db userID permName) =
     {(r, u, rp, p).
        r \<in> set (roles db) \<and> role_DeletedAt r = None \<and>
        u \<in> set (users db) \<and> usr_RoleID u = Some (role_ID r) \<and>
        rp \<in> set (role_permissions db) \<and> rp_RoleID rp = role_ID r \<and>
        p \<in> set (permissions db) \<and> perm_ID p = rp_PermissionID rp \<and>
        usr_ID u = userID \<and> perm_Name p = permName}"
  by (auto simp: permission_join_rows_def)

lemma no_rows_no_permission:
  assumes "set (permission_join_rows db userID (perm_Name perm)) = {}"
  shows "HasPermission False db userID perm = Inr False"
  using assms by (simp add: HasPermission_def)

text \<open>
  C9: when the query does not fail, \<open>HasPermission\<close> returns true iff exactly one row
  of the join of roles, users, role\_permissions and permissions matches the user id and
  the permission name; it returns false, and no error, when the user has no role and
  when no permission linked to the user's role has that name.
\<close>

theorem HasPermission_iff_one_row:
  "HasPermission False db userID perm =
     Inr (length (permission_join_rows db userID (perm_Name perm)) = 1)
   \<and> set (permission_join_rows db userID (perm_Name perm)) =
       {(r, u, rp, p).
          r \<in> set (roles db) \<and> role_DeletedAt r = None \<and>
          u \<in> set (users db) \<and> usr_RoleID u = Some (role_ID r) \<and>
          rp \<in> set (role_permissions db) \<and> rp_RoleID rp = role_ID r \<and>
          p \<in> set (permissions db) \<and> perm_ID p = rp_PermissionID rp \<and>
          usr_ID u = userID \<and> perm_Name p = perm_Name perm}
   \<and> ((\<forall>u \<in> set (users db). usr_ID u = userID \<longrightarrow> usr_RoleID u = None) \<longrightarrow>
        HasPermission False db userID perm = Inr False)
   \<and> ((\<forall>u \<in> set (users db). \<forall>rp \<in> set (role_permissions db). \<forall>p \<in> set (permissions db).
          usr_ID u = userID \<and> usr_RoleID u = Some (rp_RoleID rp) \<and>
          perm_ID p = rp_PermissionID rp \<longrightarrow> perm_Name p \<noteq> perm_Name perm) \<longrightarrow>
        HasPermission False db userID perm = Inr False)"
proof (intro conjI impI)
  show "HasPermission False db userID perm =
     Inr (length (permission_join_rows db userID (perm_Name perm)) = 1)"
    by (simp add: HasPermission_def)
next
  show "set (permission_join_rows db userID (perm_Name perm)) =
       {(r, u, rp, p).
          r \<in> set (roles db) \<and> role_DeletedAt r = None \<and>
          u \<in> set (users db) \<and> usr_RoleID u = Some (role_ID r) \<and>
          rp \<in> set (role_permissions db) \<and> rp_RoleID rp = role_ID r \<and>
          p \<in> set (permissions db) \<and> perm_ID p = rp_PermissionID rp \<and>
          usr_ID u = userID \<and> perm_Name p = perm_Name perm}"
    by (rule set_permission_join_rows)
next
  assume "\<forall>u \<in> set (users db). usr_ID u = userID \<longrightarrow> usr_RoleID u = None"
  then have "set (permission_join_rows db userID (perm_Name perm)) = {}"
    unfolding set_permission_join_rows by auto
  then show "HasPermission False db userID perm = Inr False"
    by (rule no_rows_no_permission)
next
  assume "\<forall>u \<in> set (users db). \<forall>rp \<in> set (role_permissions db). \<forall>p \<in> set (permissions db).
          usr_ID u = userID \<and> usr_RoleID u = Some (rp_RoleID rp) \<and>
          perm_ID p = rp_PermissionID rp \<longrightarrow> perm_Name p \<noteq> perm_Name perm"
  then have "set (permission_join_rows db userID (perm_Name perm)) = {}"
    unfolding set_permission_join_rows by fastforce
  then show "HasPermission False db userID perm = Inr False"
    by (rule no_rows_no_permission)
qed

theorem HasPermission_iff_one_row_witness:
  "HasPermission False ex_db_roles 1 ex_perm_read = Inr True
   \<and> permission_join_rows ex_db_roles 1 ''user:read'' =
       [(ex_admin_role, ex_alice, \<lparr>rp_RoleID = ''r1'', rp_PermissionID = ''p1''\<rparr>, ex_perm_read)]
   \<and> HasPermission False ex_db_roles 2 ex_perm_read = Inr False
   \<and> HasPermission False ex_db_roles 1 ex_perm_delete = Inr False"
proof -
  have rows: "permission_join_rows ex_db_roles 1 ''user:read'' =
       [(ex_admin_role, ex_alice, \<lparr>rp_RoleID = ''r1'', rp_PermissionID = ''p1''\<rparr>, ex_perm_read)]"
    by (simp add: permission_join_rows_def ex_role_defs ex_db_def ex_alice_def)
  have bob: "\<forall>u \<in> set (users ex_db_roles). usr_ID u = 2 \<longrightarrow> usr_RoleID u = None"
    by (simp add: ex_role_defs ex_db_def ex_alice_def)
  have del: "\<forall>u \<in> set (users ex_db_roles). \<forall>rp \<in> set (role_permissions ex_db_roles).
          \<forall>p \<in> set (permissions ex_db_roles).
          usr_ID u = 1 \<and> usr_RoleID u = Some (rp_RoleID rp) \<and>
          perm_ID p = rp_PermissionID rp \<longrightarrow> perm_Name p \<noteq> perm_Name ex_perm_delete"
    by (simp add: ex_role_defs ex_db_def ex_alice_def)
  have nm: "perm_Name ex_perm_read = ''user:read''"
    by (simp add: ex_perm_read_def)
  have one: "HasPermission False ex_db_roles 1 ex_perm_read = Inr True"
    using HasPermission_iff_one_row [of ex_db_roles 1 ex_perm_read] rows nm by simp
  have two: "HasPermission False ex_db_roles 2 ex_perm_read = Inr False"
    using HasPermission_iff_one_row [of ex_db_roles 2 ex_perm_read] bob by blast
  have three: "HasPermission False ex_db_roles 1 ex_perm_delete = Inr False"
    using HasPermission_iff_one_row [of ex_db_roles 1 ex_perm_delete] del by blast
  show ?thesis
    using one rows two three by blast
qed

section \<open>Login\<close>

lemma CreateAccessToken_value:
  "CreateAccessToken e uid ex =
     Inr (Signed SigningMethodHS256 (JWT_SECRET_KEY e)
            ([(''id'', JNumber (int uid)), (''type'', JString ''access'')] @
             (if ex \<noteq> 0 then [(''exp'', JNumber ex)] else [])))"
  by (simp add: create_defs Let_def)

lemma CreateRefreshToken_value:
  "CreateRefreshToken e uid ex =
     Inr (Signed SigningMethodHS256 (JWT_SECRET_KEY e)
            ([(''id'', JNumber (int uid)), (''type'', JString ''refresh'')] @
             (if ex \<noteq> 0 then [(''exp'', JNumber ex)] else [])))"
  by (simp add: create_defs Let_def)

lemma ParseToken_issued:
  assumes "ex = 0 \<or> now e \<le> ex"
  shows "ParseToken e (Signed SigningMethodHS256 (JWT_SECRET_KEY e)
            ([(''id'', JNumber (int uid)), (''type'', JString ty)] @
             (if ex \<noteq> 0 then [(''exp'', JNumber ex)] else []))) =
         Inr ([(''id'', JNumber (int uid)), (''type'', JString ty)] @
             (if ex \<noteq> 0 then [(''exp'', JNumber ex)] else []))"
  using assms by (auto simp: parse_defs)

lemma claim_id_issued:
  "claim ([(''id'', JNumber (int uid)), (''type'', JString ty)] @ rest) ''id''
     = Some (JNumber (int uid))"
  by (simp add: claim_def)

lemma db_First_unique:
  assumes "u \<in> set xs" and "P u" and "\<forall>u' \<in> set xs. P u' \<longrightarrow> u' = u"
  shows "db_First False P xs = Inr u"
proof (cases "filter P xs")
  case Nil
  with assms(1,2) show ?thesis
    by (simp add: filter_empty_conv)
next
  case (Cons x rest)
  then have "x \<in> set (filter P xs)"
    by simp
  then have "x = u"
    using assms(3) by simp
  with Cons show ?thesis
    by (simp add: db_First_def)
qed

lemma LogIn_failure_keeps_store:
  "LogIn e AllPermissions newRoleID flt db cred = (Inl err, db') \<Longrightarrow> db' = db"
  by (auto simp: LogIn_def Let_def CreateAccessToken_value CreateRefreshToken_value
        split: sum.splits if_splits)

lemma LogIn_success_writes_both:
  "LogIn e AllPermissions newRoleID flt db cred = (Inr ts, db') \<Longrightarrow>
     refresh_tokens db' =
       refresh_tokens db @ [\<lparr>rt_Token = ts_RefreshToken ts, rt_Revoked = False\<rparr>] \<and>
     (\<exists>uid. activity_logs db' =
       activity_logs db @ [\<lparr>al_UserID = uid, al_ActivityType = ActTypeLogin\<rparr>])"
  by (auto simp: LogIn_def Let_def CreateAccessToken_value CreateRefreshToken_value
        save_user_with_admin_role_def split: sum.splits if_splits)

lemma save_user_with_admin_role_keeps:
  "refresh_tokens (save_user_with_admin_role AllPermissions newRoleID user t db)
     = refresh_tokens db"
  "activity_logs (save_user_with_admin_role AllPermissions newRoleID user t db)
     = activity_logs db"
  by (simp_all add: save_user_with_admin_role_def)

lemma LogIn_value:
  assumes "db_First False
             (\<lambda>u. usr_DeletedAt u = None \<and> usr_Email u = ToLower (lp_Email cred)) (users db)
           = Inr user"
    and "bcrypt_Compare e (usr_Password user) (lp_Password cred)"
    and "\<not> flt 0" "\<not> flt 1" "\<not> flt 2" "\<not> flt 3" "\<not> flt 4"
  shows "\<exists>db'. LogIn e AllPermissions newRoleID flt db cred =
     (Inr \<lparr>ts_AccessToken =
             Signed SigningMethodHS256 (JWT_SECRET_KEY e)
               ([(''id'', JNumber (int (usr_ID user))), (''type'', JString ''access'')] @
                (if (if lp_IsLongLiveToken cred then 0 else now e + 3600 * 24 * 30) \<noteq> 0
                 then [(''exp'', JNumber (if lp_IsLongLiveToken cred then 0
                                          else now e + 3600 * 24 * 30))]
                 else [])),
           ts_RefreshToken =
             Signed SigningMethodHS256 (JWT_SECRET_KEY e)
               ([(''id'', JNumber (int (usr_ID user))), (''type'', JString ''refresh'')] @
                (if now e + 3600 * 24 * 30 \<noteq> 0
                 then [(''exp'', JNumber (now e + 3600 * 24 * 30))] else []))\<rparr>, db')
     \<and> activity_logs db' =
         activity_logs db @ [\<lparr>al_UserID = usr_ID user, al_ActivityType = ActTypeLogin\<rparr>]"
  using assms
  by (simp add: LogIn_def Let_def CreateAccessToken_value CreateRefreshToken_value
        save_user_with_admin_role_keeps)

text \<open>
  C7: for a stored principal (the one live user with the lower-cased email) and a
  password that matches its hash, \<open>LogIn\<close>, when no database call fails, returns an
  access token and a refresh token that both parse to the principal's id, and has
  appended the refresh-token record and the login entry; whatever fails, a failed
  \<open>LogIn\<close> leaves the store as it was and a successful one has made both writes.
\<close>

theorem LogIn_token_pair_atomic:
  "(u \<in> set (users db) \<and> usr_DeletedAt u = None \<and> usr_Email u = ToLower (lp_Email cred) \<and>
      (\<forall>u' \<in> set (users db).
          usr_DeletedAt u' = None \<and> usr_Email u' = usr_Email u \<longrightarrow> u' = u) \<and>
      bcrypt_Compare e (usr_Password u) (lp_Password cred) \<and>
      \<not> flt 0 \<and> \<not> flt 1 \<and> \<not> flt 2 \<and> \<not> flt 3 \<and> \<not> flt 4 \<longrightarrow>
      (\<exists>ts db' ca cr.
          LogIn e AllPermissions newRoleID flt db cred = (Inr ts, db') \<and>
          ParseToken e (ts_AccessToken ts) = Inr ca \<and>
          claim ca ''id'' = Some (JNumber (int (usr_ID u))) \<and>
          ParseToken e (ts_RefreshToken ts) = Inr cr \<and>
          claim cr ''id'' = Some (JNumber (int (usr_ID u))) \<and>
          refresh_tokens db' =
            refresh_tokens db @ [\<lparr>rt_Token = ts_RefreshToken ts, rt_Revoked = False\<rparr>] \<and>
          activity_logs db' =
            activity_logs db @ [\<lparr>al_UserID = usr_ID u, al_ActivityType = ActTypeLogin\<rparr>]))
   \<and> (\<forall>err db'. LogIn e AllPermissions newRoleID flt db cred = (Inl err, db') \<longrightarrow> db' = db)
   \<and> (\<forall>ts db'. LogIn e AllPermissions newRoleID flt db cred = (Inr ts, db') \<longrightarrow>
          refresh_tokens db' =
            refresh_tokens db @ [\<lparr>rt_Token = ts_RefreshToken ts, rt_Revoked = False\<rparr>] \<and>
          (\<exists>uid. activity_logs db' =
            activity_logs db @ [\<lparr>al_UserID = uid, al_ActivityType = ActTypeLogin\<rparr>]))"
proof (intro conjI allI impI)
  assume h: "u \<in> set (users db) \<and> usr_DeletedAt u = None \<and>
      usr_Email u = ToLower (lp_Email cred) \<and>
      (\<forall>u' \<in> set (users db).
          usr_DeletedAt u' = None \<and> usr_Email u' = usr_Email u \<longrightarrow> u' = u) \<and>
      bcrypt_Compare e (usr_Password u) (lp_Password cred) \<and>
      \<not> flt 0 \<and> \<not> flt 1 \<and> \<not> flt 2 \<and> \<not> flt 3 \<and> \<not> flt 4"
  let ?P = "\<lambda>u. usr_DeletedAt u = None \<and> usr_Email u = ToLower (lp_Email cred)"
  have "\<forall>u' \<in> set (users db). ?P u' \<longrightarrow> u' = u"
    using h by simp
  then have first: "db_First False ?P (users db) = Inr u"
    using h db_First_unique [of u "users db" ?P] by blast
  let ?ea = "if lp_IsLongLiveToken cred then 0 else now e + 3600 * 24 * 30"
  let ?ca = "[(''id'', JNumber (int (usr_ID u))), (''type'', JString ''access'')] @
                (if ?ea \<noteq> 0 then [(''exp'', JNumber ?ea)] else [])"
  let ?cr = "[(''id'', JNumber (int (usr_ID u))), (''type'', JString ''refresh'')] @
                (if now e + 3600 * 24 * 30 \<noteq> 0
                 then [(''exp'', JNumber (now e + 3600 * 24 * 30))] else [])"
  let ?ts = "\<lparr>ts_AccessToken = Signed SigningMethodHS256 (JWT_SECRET_KEY e) ?ca,
             ts_RefreshToken = Signed SigningMethodHS256 (JWT_SECRET_KEY e) ?cr\<rparr>"
  obtain db' where v: "LogIn e AllPermissions newRoleID flt db cred = (Inr ?ts, db')"
    and l: "activity_logs db' =
            activity_logs db @ [\<lparr>al_UserID = usr_ID u, al_ActivityType = ActTypeLogin\<rparr>]"
    using LogIn_value [OF first, of e flt AllPermissions newRoleID] h by blast
  have pa: "ParseToken e (ts_AccessToken ?ts) = Inr ?ca"
    using ParseToken_issued [of ?ea e "usr_ID u" "''access''"] by simp
  have pr: "ParseToken e (ts_RefreshToken ?ts) = Inr ?cr"
    using ParseToken_issued [of "now e + 3600 * 24 * 30" e "usr_ID u" "''refresh''"] by simp
  have w: "refresh_tokens db' =
       refresh_tokens db @ [\<lparr>rt_Token = ts_RefreshToken ?ts, rt_Revoked = False\<rparr>]"
    using LogIn_success_writes_both [OF v] by blast
  show "\<exists>ts db' ca cr.
          LogIn e AllPermissions newRoleID flt db cred = (Inr ts, db') \<and>
          ParseToken e (ts_AccessToken ts) = Inr ca \<and>
          claim ca ''id'' = Some (JNumber (int (usr_ID u))) \<and>
          ParseToken e (ts_RefreshToken ts) = Inr cr \<and>
          claim cr ''id'' = Some (JNumber (int (usr_ID u))) \<and>
          refresh_tokens db' =
            refresh_tokens db @ [\<lparr>rt_Token = ts_RefreshToken ts, rt_Revoked = False\<rparr>] \<and>
          activity_logs db' =
            activity_logs db @ [\<lparr>al_UserID = usr_ID u, al_ActivityType = ActTypeLogin\<rparr>]"
    using v pa pr w l claim_id_issued by blast
next
  fix err db'
  assume "LogIn e AllPermissions newRoleID flt db cred = (Inl err, db')"
  then show "db' = db"
    by (rule LogIn_failure_keeps_store)
next
  fix ts db'
  assume s: "LogIn e AllPermissions newRoleID flt db cred = (Inr ts, db')"
  show "refresh_tokens db' =
            refresh_tokens db @ [\<lparr>rt_Token = ts_RefreshToken ts, rt_Revoked = False\<rparr>]"
    using LogIn_success_writes_both [OF s] by blast
  show "\<exists>uid. activity_logs db' =
            activity_logs db @ [\<lparr>al_UserID = uid, al_ActivityType = ActTypeLogin\<rparr>]"
    using LogIn_success_writes_both [OF s] by blast
qed

theorem LogIn_token_pair_atomic_witness:
  "(\<exists>ts db' ca cr.
      LogIn ex_env [ex_perm_read] ''r9'' no_faults ex_db ex_cred = (Inr ts, db') \<and>
      ParseToken ex_env (ts_AccessToken ts) = Inr ca \<and>
      claim ca ''id'' = Some (JNumber (int (usr_ID ex_alice))) \<and>
      ParseToken ex_env (ts_RefreshToken ts) = Inr cr \<and>
      claim cr ''id'' = Some (JNumber (int (usr_ID ex_alice))) \<and>
      refresh_tokens db' =
        refresh_tokens ex_db @ [\<lparr>rt_Token = ts_RefreshToken ts, rt_Revoked = False\<rparr>] \<and>
      activity_logs db' =
        activity_logs ex_db @
          [\<lparr>al_UserID = usr_ID ex_alice, al_ActivityType = ActTypeLogin\<rparr>])
   \<and> LogIn ex_env [ex_perm_read] ''r9'' no_faults ex_db ex_cred =
       (Inr \<lparr>ts_AccessToken = ex_access_token, ts_RefreshToken = ex_refresh_token\<rparr>,
        ex_db_session)
   \<and> LogIn ex_env [ex_perm_read] ''r9'' (\<lambda>i. i = 3) ex_db ex_cred =
       (Inl (Wrapf ''service.AuthService.LogIn'' ErrStorage), ex_db)"
proof -
  have lower: "ToLower (lp_Email ex_cred) = ''alice@example.com''"
    by code_simp
  have h: "ex_alice \<in> set (users ex_db) \<and> usr_DeletedAt ex_alice = None \<and>
      usr_Email ex_alice = ToLower (lp_Email ex_cred) \<and>
      (\<forall>u' \<in> set (users ex_db).
          usr_DeletedAt u' = None \<and> usr_Email u' = usr_Email ex_alice \<longrightarrow> u' = ex_alice) \<and>
      bcrypt_Compare ex_env (usr_Password ex_alice) (lp_Password ex_cred) \<and>
      \<not> no_faults 0 \<and> \<not> no_faults 1 \<and> \<not> no_faults 2 \<and> \<not> no_faults 3 \<and> \<not> no_faults 4"
    unfolding lower by (simp add: ex_defs ex_cred_def)
  have a: "\<exists>ts db' ca cr.
      LogIn ex_env [ex_perm_read] ''r9'' no_faults ex_db ex_cred = (Inr ts, db') \<and>
      ParseToken ex_env (ts_AccessToken ts) = Inr ca \<and>
      claim ca ''id'' = Some (JNumber (int (usr_ID ex_alice))) \<and>
      ParseToken ex_env (ts_RefreshToken ts) = Inr cr \<and>
      claim cr ''id'' = Some (JNumber (int (usr_ID ex_alice))) \<and>
      refresh_tokens db' =
        refresh_tokens ex_db @ [\<lparr>rt_Token = ts_RefreshToken ts, rt_Revoked = False\<rparr>] \<and>
      activity_logs db' =
        activity_logs ex_db @
          [\<lparr>al_UserID = usr_ID ex_alice, al_ActivityType = ActTypeLogin\<rparr>]"
    using LogIn_token_pair_atomic
      [of ex_alice ex_db ex_cred ex_env no_faults "[ex_perm_read]" "''r9''"] h
    by blast
  have b: "LogIn ex_env [ex_perm_read] ''r9'' no_faults ex_db ex_cred =
       (Inr \<lparr>ts_AccessToken = ex_access_token, ts_RefreshToken = ex_refresh_token\<rparr>,
        ex_db_session)"
    unfolding LogIn_def lower
    by (simp add: CreateAccessToken_value CreateRefreshToken_value db_First_def ex_defs
          ex_access_token_def ex_db_session_def ex_cred_def)
  have c: "LogIn ex_env [ex_perm_read] ''r9'' (\<lambda>i. i = 3) ex_db ex_cred =
       (Inl (Wrapf ''service.AuthService.LogIn'' ErrStorage), ex_db)"
    unfolding LogIn_def lower
    by (simp add: CreateAccessToken_value CreateRefreshToken_value db_First_def ex_defs
          ex_cred_def)
  show ?thesis
    using a b c by blast
qed

section \<open>The expiry of refresh tokens\<close>

lemma LogIn_refresh_token:
  "LogIn e AllPermissions newRoleID flt db cred = (Inr ts, db') \<Longrightarrow>
     \<exists>uid. ts_RefreshToken ts =
       Signed SigningMethodHS256 (JWT_SECRET_KEY e)
         ([(''id'', JNumber (int uid)), (''type'', JString ''refresh'')] @
          (if now e + 3600 * 24 * 30 \<noteq> 0
           then [(''exp'', JNumber (now e + 3600 * 24 * 30))] else []))"
  by (auto simp: LogIn_def Let_def CreateAccessToken_value CreateRefreshToken_value
        split: sum.splits if_splits)

lemma LogInByLine_refresh_token:
  "LogInByLine e flt db lineID = (Inr ts, db') \<Longrightarrow>
     \<exists>uid. ts_RefreshToken ts =
       Signed SigningMethodHS256 (JWT_SECRET_KEY e)
         ([(''id'', JNumber (int uid)), (''type'', JString ''refresh'')] @
          (if now e + 3600 * 24 * 7 \<noteq> 0
           then [(''exp'', JNumber (now e + 3600 * 24 * 7))] else []))"
  by (auto simp: LogInByLine_def Let_def CreateAccessToken_value CreateRefreshToken_value
        split: sum.splits if_splits)

lemma LogIn_flag_independent:
  assumes "lp_Email c1 = lp_Email c2" and "lp_Password c1 = lp_Password c2"
  shows "map_sum id ts_RefreshToken (fst (LogIn e AllPermissions newRoleID flt db c1)) =
         map_sum id ts_RefreshToken (fst (LogIn e AllPermissions newRoleID flt db c2))"
    and "snd (LogIn e AllPermissions newRoleID flt db c1) =
         snd (LogIn e AllPermissions newRoleID flt db c2)"
  using assms
  by (auto simp: LogIn_def Let_def CreateAccessToken_value CreateRefreshToken_value
        split: sum.splits)

text \<open>
  C10: with a clock that does not read a time before the Unix epoch, the refresh token
  of a successful \<open>LogIn\<close> carries the expiry claim now + 30 days and that of a
  successful \<open>LogInByLine\<close> the expiry claim now + 7 days; the long-lived-token flag
  changes neither the refresh token (or the error) that \<open>LogIn\<close> returns nor the store
  it leaves.
\<close>

theorem refresh_token_always_expires:
  "(0 \<le> now e \<longrightarrow>
      (\<forall>ts db'. LogIn e AllPermissions newRoleID flt db cred = (Inr ts, db') \<longrightarrow>
         (\<exists>uid. ts_RefreshToken ts =
            Signed SigningMethodHS256 (JWT_SECRET_KEY e)
              [(''id'', JNumber (int uid)), (''type'', JString ''refresh''),
               (''exp'', JNumber (now e + 3600 * 24 * 30))])) \<and>
      (\<forall>ts db'. LogInByLine e flt db lineID = (Inr ts, db') \<longrightarrow>
         (\<exists>uid. ts_RefreshToken ts =
            Signed SigningMethodHS256 (JWT_SECRET_KEY e)
              [(''id'', JNumber (int uid)), (''type'', JString ''refresh''),
               (''exp'', JNumber (now e + 3600 * 24 * 7))])))
   \<and> map_sum id ts_RefreshToken
        (fst (LogIn e AllPermissions newRoleID flt db (cred\<lparr>lp_IsLongLiveToken := True\<rparr>))) =
     map_sum id ts_RefreshToken
        (fst (LogIn e AllPermissions newRoleID flt db (cred\<lparr>lp_IsLongLiveToken := False\<rparr>)))
   \<and> snd (LogIn e AllPermissions newRoleID flt db (cred\<lparr>lp_IsLongLiveToken := True\<rparr>)) =
     snd (LogIn e AllPermissions newRoleID flt db (cred\<lparr>lp_IsLongLiveToken := False\<rparr>))"
proof -
  have a: "\<exists>uid. ts_RefreshToken ts =
            Signed SigningMethodHS256 (JWT_SECRET_KEY e)
              [(''id'', JNumber (int uid)), (''type'', JString ''refresh''),
               (''exp'', JNumber (now e + 3600 * 24 * 30))]"
    if "0 \<le> now e" and "LogIn e AllPermissions newRoleID flt db cred = (Inr ts, db')"
    for ts db'
    using LogIn_refresh_token [OF that(2)] that(1) by simp
  have b: "\<exists>uid. ts_RefreshToken ts =
            Signed SigningMethodHS256 (JWT_SECRET_KEY e)
              [(''id'', JNumber (int uid)), (''type'', JString ''refresh''),
               (''exp'', JNumber (now e + 3600 * 24 * 7))]"
    if "0 \<le> now e" and "LogInByLine e flt db lineID = (Inr ts, db')"
    for ts db'
    using LogInByLine_refresh_token [OF that(2)] that(1) by simp
  have c: "map_sum id ts_RefreshToken
        (fst (LogIn e AllPermissions newRoleID flt db (cred\<lparr>lp_IsLongLiveToken := True\<rparr>))) =
     map_sum id ts_RefreshToken
        (fst (LogIn e AllPermissions newRoleID flt db (cred\<lparr>lp_IsLongLiveToken := False\<rparr>)))"
    by (rule LogIn_flag_independent(1)) simp_all
  have d: "snd (LogIn e AllPermissions newRoleID flt db (cred\<lparr>lp_IsLongLiveToken := True\<rparr>)) =
     snd (LogIn e AllPermissions newRoleID flt db (cred\<lparr>lp_IsLongLiveToken := False\<rparr>))"
    by (rule LogIn_flag_independent(2)) simp_all
  show ?thesis
    using a b c d by blast
qed

theorem refresh_token_always_expires_witness:
  "0 \<le> now ex_env
   \<and> LogIn ex_env [ex_perm_read] ''r9'' no_faults ex_db (ex_cred\<lparr>lp_IsLongLiveToken := True\<rparr>) =
       (Inr \<lparr>ts_AccessToken =
               Signed SigningMethodHS256 ''secret''
                 [(''id'', JNumber 1), (''type'', JString ''access'')],
             ts_RefreshToken = ex_refresh_token\<rparr>, ex_db_session)
   \<and> (\<exists>uid. ex_refresh_token =
         Signed SigningMethodHS256 (JWT_SECRET_KEY ex_env)
           [(''id'', JNumber (int uid)), (''type'', JString ''refresh''),
            (''exp'', JNumber (now ex_env + 3600 * 24 * 30))])
   \<and> LogInByLine ex_env no_faults ex_db ''alice-line'' =
       (Inr \<lparr>ts_AccessToken = ex_access_token, ts_RefreshToken = ex_line_refresh_token\<rparr>,
        ex_db\<lparr>refresh_tokens := [\<lparr>rt_Token = ex_line_refresh_token, rt_Revoked = False\<rparr>],
              activity_logs := [\<lparr>al_UserID = 1, al_ActivityType = ActTypeLogin\<rparr>]\<rparr>)
   \<and> (\<exists>uid. ex_line_refresh_token =
         Signed SigningMethodHS256 (JWT_SECRET_KEY ex_env)
           [(''id'', JNumber (int uid)), (''type'', JString ''refresh''),
            (''exp'', JNumber (now ex_env + 3600 * 24 * 7))])"
proof -
  have n: "0 \<le> now ex_env"
    by (simp add: ex_env_def)
  have lower: "ToLower (lp_Email (ex_cred\<lparr>lp_IsLongLiveToken := True\<rparr>)) = ''alice@example.com''"
    by code_simp
  have a: "LogIn ex_env [ex_perm_read] ''r9'' no_faults ex_db
             (ex_cred\<lparr>lp_IsLongLiveToken := True\<rparr>) =
       (Inr \<lparr>ts_AccessToken =
               Signed SigningMethodHS256 ''secret''
                 [(''id'', JNumber 1), (''type'', JString ''access'')],
             ts_RefreshToken = ex_refresh_token\<rparr>, ex_db_session)"
    unfolding LogIn_def lower
    by (simp add: CreateAccessToken_value CreateRefreshToken_value db_First_def ex_defs
          ex_db_session_def ex_cred_def)
  have b: "LogInByLine ex_env no_faults ex_db ''alice-line'' =
       (Inr \<lparr>ts_AccessToken = ex_access_token, ts_RefreshToken = ex_line_refresh_token\<rparr>,
        ex_db\<lparr>refresh_tokens := [\<lparr>rt_Token = ex_line_refresh_token, rt_Revoked = False\<rparr>],
              activity_logs := [\<lparr>al_UserID = 1, al_ActivityType = ActTypeLogin\<rparr>]\<rparr>)"
    unfolding LogInByLine_def
    by (simp add: CreateAccessToken_value CreateRefreshToken_value db_First_def ex_defs
          ex_access_token_def ex_line_refresh_token_def)
  have c: "ts_RefreshToken \<lparr>ts_AccessToken = x, ts_RefreshToken = y\<rparr> = y" for x y
    by simp
  show ?thesis
    using refresh_token_always_expires
      [of ex_env "[ex_perm_read]" "''r9''" no_faults ex_db
          "ex_cred\<lparr>lp_IsLongLiveToken := True\<rparr>" "''alice-line''"]
      n a b c
    by metis
qed

section \<open>Password reset: the request\<close>

lemma EmailExist_iff:
  "EmailExist fails db email =
     (\<not> fails \<and> (\<exists>u \<in> set (users db). usr_DeletedAt u = None \<and> usr_Email u = email))"
proof -
  let ?xs = "filter (\<lambda>u. usr_DeletedAt u = None \<and> usr_Email u = email) (users db)"
  have "(length ?xs \<ge> 1) = (?xs \<noteq> [])"
    by (cases ?xs) simp_all
  also have "\<dots> = (\<exists>u \<in> set (users db). usr_DeletedAt u = None \<and> usr_Email u = email)"
    by (simp add: filter_empty_conv)
  finally show ?thesis
    by (simp add: EmailExist_def db_Count_def Let_def)
qed

lemma createNewPasswordReset_success_is_201:
  assumes "snd (fst (createNewPasswordReset e flt rand send_fails w email)) = SuccessResponse m"
  shows "fst (fst (createNewPasswordReset e flt rand send_fails w email)) = 201"
  using assms
  by (auto simp: createNewPasswordReset_def
        split: sum.splits prod.splits option.splits if_splits)

text \<open>
  C8, as stated, fails: for Bob, who has no account, the response is 200 and nothing
  changes; for Alice, who has one, the success response is 201, so the two responses
  differ; and for the empty email the response is 400.
\<close>

theorem C8_status_tells_accounts_apart:
  "Password_CreatePasswordReset ex_env no_faults (Some ''tok'') False ex_world
       ''bob@example.com'' = ((200, SuccessResponse ''success''), ex_world)
   \<and> Password_CreatePasswordReset ex_env no_faults (Some ''tok'') False ex_world
       ''alice@example.com'' =
       ((201, SuccessResponse ''success''),
        \<lparr>w_db = ex_db\<lparr>password_resets :=
                  [\<lparr>pr_Email = ''alice@example.com'', pr_Token = ''tok'',
                    pr_CreatedAt = 1000, pr_DeletedAt = None\<rparr>]\<rparr>,
          w_sent = [\<lparr>pr_Email = ''alice@example.com'', pr_Token = ''tok'',
                     pr_CreatedAt = 1000, pr_DeletedAt = None\<rparr>]\<rparr>)
   \<and> Password_CreatePasswordReset ex_env no_faults (Some ''tok'') False ex_world [] =
       ((400, ErrorResponse ''email is required''), ex_world)"
  by (simp add: Password_CreatePasswordReset_def createNewPasswordReset_def
        createPasswordReset_def GenerateRandomString_def CreatePasswordReset_def
        GetPasswordReset_def CheckPasswordResetEmailExist_def EmailExist_def
        db_Count_def db_First_def zero_PasswordReset_def ex_world_def ex_defs Let_def)

text \<open>
  C8, amended: for a non-empty email that no stored principal has, the request answers
  200 with the message \<open>success\<close> and changes nothing: no record is created and no
  email is sent; for an email that a stored principal has, a success response has the
  same message and the status 201.
\<close>

theorem CreatePasswordReset_unknown_email:
  "(email \<noteq> [] \<and>
      (\<forall>u \<in> set (users (w_db w)). usr_DeletedAt u = None \<longrightarrow> usr_Email u \<noteq> email) \<longrightarrow>
      Password_CreatePasswordReset e flt rand send_fails w email =
        ((200, SuccessResponse ''success''), w))
   \<and> (email2 \<noteq> [] \<and> \<not> flt 0 \<and> u2 \<in> set (users (w_db w)) \<and> usr_DeletedAt u2 = None \<and>
        usr_Email u2 = email2 \<and>
        snd (fst (Password_CreatePasswordReset e flt rand send_fails w email2)) =
          SuccessResponse ''success'' \<longrightarrow>
        fst (fst (Password_CreatePasswordReset e flt rand send_fails w email2)) = 201)"
proof (intro conjI impI)
  assume h: "email \<noteq> [] \<and>
      (\<forall>u \<in> set (users (w_db w)). usr_DeletedAt u = None \<longrightarrow> usr_Email u \<noteq> email)"
  then have "\<not> EmailExist (flt 0) (w_db w) email"
    by (auto simp: EmailExist_iff)
  with h show "Password_CreatePasswordReset e flt rand send_fails w email =
        ((200, SuccessResponse ''success''), w)"
    by (simp add: Password_CreatePasswordReset_def)
next
  assume h: "email2 \<noteq> [] \<and> \<not> flt 0 \<and> u2 \<in> set (users (w_db w)) \<and> usr_DeletedAt u2 = None \<and>
        usr_Email u2 = email2 \<and>
        snd (fst (Password_CreatePasswordReset e flt rand send_fails w email2)) =
          SuccessResponse ''success''"
  then have ex: "EmailExist (flt 0) (w_db w) email2"
    by (auto simp: EmailExist_iff)
  show "fst (fst (Password_CreatePasswordReset e flt rand send_fails w email2)) = 201"
    using h ex createNewPasswordReset_success_is_201 [of e flt rand send_fails _ email2 "''success''"]
    by (auto simp: Password_CreatePasswordReset_def Let_def
          split: sum.splits prod.splits if_splits)
qed

theorem CreatePasswordReset_unknown_email_witness:
  "Password_CreatePasswordReset ex_env no_faults (Some ''tok'') False ex_world
       ''bob@example.com'' = ((200, SuccessResponse ''success''), ex_world)
   \<and> fst (fst (Password_CreatePasswordReset ex_env no_faults (Some ''tok'') False ex_world
       ''alice@example.com'')) = 201"
proof -
  have a: "''bob@example.com'' \<noteq> [] \<and>
      (\<forall>u \<in> set (users (w_db ex_world)).
          usr_DeletedAt u = None \<longrightarrow> usr_Email u \<noteq> ''bob@example.com'')"
    by (simp add: ex_world_def ex_defs)
  have b: "''alice@example.com'' \<noteq> [] \<and> \<not> no_faults 0 \<and>
        ex_alice \<in> set (users (w_db ex_world)) \<and> usr_DeletedAt ex_alice = None \<and>
        usr_Email ex_alice = ''alice@example.com''"
    by (simp add: ex_world_def ex_defs)
  have c: "snd (fst (Password_CreatePasswordReset ex_env no_faults (Some ''tok'') False ex_world
       ''alice@example.com'')) = SuccessResponse ''success''"
    by (simp add: Password_CreatePasswordReset_def createNewPasswordReset_def
        createPasswordReset_def GenerateRandomString_def CreatePasswordReset_def
        GetPasswordReset_def CheckPasswordResetEmailExist_def EmailExist_def
        db_Count_def db_First_def zero_PasswordReset_def ex_world_def ex_defs Let_def)
  show ?thesis
    using CreatePasswordReset_unknown_email
      [of "''bob@example.com''" ex_world ex_env no_faults "Some ''tok''" False
          "''alice@example.com''" ex_alice]
      a b c
    by blast
qed

end
